theory Spec2Isabelle
  imports Main "HOL-Library.Sublist"
begin

section \<open>The claim controller (common/k8s/provisioner/claim.go)\<close>

subsection \<open>Data model\<close>

text \<open>
  Go strings are byte sequences, as \<^typ>\<open>string\<close> is. \<open>strings.HasPrefix s p\<close> is
  \<^term>\<open>prefix p s\<close>. Values of type \<open>interface{}\<close> held in option maps are
  \<open>go_value\<close>s.
\<close>

datatype go_value = VString string | VInt int | VBool bool

type_synonym options = "string \<rightharpoonup> go_value"

text \<open>
  \<open>api_v1.PersistentVolumeClaimPhase\<close> is a string type; the three constants are the
  kubernetes ones. \<open>BetaStorageClassAnnotation\<close> is the kubernetes annotation key.
\<close>

definition ClaimPending :: string where "ClaimPending = ''Pending''"
definition ClaimBound :: string where "ClaimBound = ''Bound''"
definition ClaimLost :: string where "ClaimLost = ''Lost''"

definition BetaStorageClassAnnotation :: string where
  "BetaStorageClassAnnotation = ''volume.beta.kubernetes.io/storage-class''"

text \<open>
  The fields of \<open>api_v1.PersistentVolumeClaim\<close> that claim.go reads.
  \<open>Spec.StorageClassName\<close> is a \<open>*string\<close>: \<open>None\<close> is the nil pointer.
  Reading a key of a nil annotation map gives "absent", as for an empty map, so
  \<open>Annotations\<close> is a plain map.
\<close>

record PersistentVolumeClaim =
  pvc_Name :: string
  pvc_Namespace :: string
  pvc_UID :: string
  pvc_Annotations :: "string \<rightharpoonup> string"
  pvc_StorageClassName :: "string option"
  pvc_Phase :: string

record PersistentVolume =
  pv_Name :: string
  pv_Namespace :: string

record StorageClass =
  sc_Name :: string
  sc_Provisioner :: string
  sc_Parameters :: "string \<rightharpoonup> string"

text \<open>
  What the informer hands to a handler, and what the claims store holds, is an
  \<open>interface{}\<close>: a pointer to a claim, a claim value, or anything else (kept as the
  text \<open>%T\<close> and \<open>%v\<close> would print).
\<close>

datatype obj =
    PtrClaim PersistentVolumeClaim
  | ValClaim PersistentVolumeClaim
  | Other string string

datatype perror =
    UnexpectedType string string
  | NoClaimsFound int
  | NilMapAssignment

text \<open>
  Arguments of a format string, and the observable effects of the controller: log lines
  at info and error level (format and arguments as in the source; debug lines are left
  out), one-second sleeps, events sent to the event recorder, registrations in the
  in-flight table and calls of \<open>provisionVolume\<close>.
\<close>

datatype arg = S string | I int | E perror | V go_value | T obj

datatype effect =
    LogInfo string "arg list"
  | LogError string "arg list"
  | Sleep
  | Event PersistentVolume string string string
  | AddMessageChan string
  | ProvisionVolume PersistentVolumeClaim StorageClass

definition EventTypeWarning :: string where "EventTypeWarning = ''Warning''"

fun events :: "effect list \<Rightarrow> effect list" where
  "events [] = []"
| "events (Event pv ty reason msg # es) = Event pv ty reason msg # events es"
| "events (e # es) = events es"

text \<open>
  The provisioner. \<open>claimsStore p k\<close> is what the \<open>k\<close>-th call of
  \<open>p.claimsStore.List()\<close> returns: the informer fills the store concurrently, so two
  calls need not agree. The class lookup \<open>p.getClass\<close> and the constant
  \<open>maxWaitForClaims\<close> are declared in other files of the package; the functions below
  take them as arguments.
\<close>

record Provisioner =
  namePrefix :: string
  claimsStore :: "nat \<Rightarrow> obj list"

subsection \<open>Claim resolver\<close>

definition getClaimClassName :: "PersistentVolumeClaim \<Rightarrow> string" where
  "getClaimClassName claim =
     (let (name, beta) =
            (case pvc_Annotations claim BetaStorageClassAnnotation of
               Some v \<Rightarrow> (v, True)
             | None \<Rightarrow> ([], False))
      in if \<not> beta \<and> pvc_StorageClassName claim \<noteq> None
         then the (pvc_StorageClassName claim)
         else name)"

fun getPersistentVolumeClaim :: "obj \<Rightarrow> perror + PersistentVolumeClaim" where
  "getPersistentVolumeClaim (Other ty v) = Inl (UnexpectedType ty v)"
| "getPersistentVolumeClaim (PtrClaim t) = Inr t"
| "getPersistentVolumeClaim (ValClaim t) = Inr t"

subsection \<open>Claim controller\<close>

definition processAddedClaim ::
  "Provisioner \<Rightarrow> (string \<Rightarrow> string + StorageClass) \<Rightarrow> PersistentVolumeClaim \<Rightarrow> effect list"
where
  "processAddedClaim p getClass claim =
     (if pvc_Phase claim \<noteq> ClaimPending then
        [LogInfo ''pvc %s was not in pending phase.  current phase=%s - skipping''
           [S (pvc_Name claim), S (pvc_Phase claim)]]
      else
        let className = getClaimClassName claim in
        (case getClass className of
           Inl err \<Rightarrow>
             [LogError ''error getting class named %s for pvc %s. err=%v''
                [S className, S (pvc_Name claim), S err]]
         | Inr class \<Rightarrow>
             if \<not> prefix (namePrefix p) (sc_Provisioner class) then
               [LogInfo ''class named %s in pvc %s did not refer to a supported provisioner (name must begin with %s).  current provisioner=%s - skipping''
                  [S className, S (pvc_Name claim), S (namePrefix p), S (sc_Provisioner class)]]
             else
               [LogInfo ''processAddedClaim: provisioner:%s pvc:%s  class:%s''
                  [S (sc_Provisioner class), S (pvc_Name claim), S className],
                AddMessageChan (pvc_UID claim),
                ProvisionVolume claim class]))"

text \<open>
  The handler starts \<open>processAddedClaim\<close> as a goroutine; its effects are those of
  that task.
\<close>

definition addedClaim ::
  "Provisioner \<Rightarrow> (string \<Rightarrow> string + StorageClass) \<Rightarrow> obj \<Rightarrow> effect list"
where
  "addedClaim p getClass t =
     (case getPersistentVolumeClaim t of
        Inl err \<Rightarrow>
          [LogError ''Failed to get persistent volume claim from %v, %s'' [T t, E err]]
      | Inr claim \<Rightarrow> processAddedClaim p getClass claim)"

subsection \<open>Cross-reference resolution\<close>

definition notFoundMessage :: "PersistentVolume \<Rightarrow> string \<Rightarrow> string" where
  "notFoundMessage pv claimName =
     ''clone of a pvc('' @ claimName @ '') for namespace('' @ pv_Namespace pv
       @ '') was requested but we couldn't find it''"

text \<open>
  The first loop of \<open>getClaimFromPVCName\<close>: \<open>i\<close> is the loop counter and \<open>k\<close> the
  number of \<open>List()\<close> calls made so far. It returns the effects and either the timeout
  error or the number of \<open>List()\<close> calls made when the loop is left. The counter is a
  Go \<open>int\<close>; it never exceeds \<open>maxWaitForClaims + 1\<close>, so it does not wrap for any
  bound below the largest \<open>int\<close>.
\<close>

function waitForClaims ::
  "Provisioner \<Rightarrow> int \<Rightarrow> PersistentVolume \<Rightarrow> string \<Rightarrow> int \<Rightarrow> nat
     \<Rightarrow> effect list \<times> (perror + nat)"
where
  "waitForClaims p maxWaitForClaims pv claimName i k =
     (if length (claimsStore p k) < 1 then
        (if i > maxWaitForClaims then
           ([Event pv EventTypeWarning ''ProvisionStorage'' (notFoundMessage pv claimName),
             LogInfo ''No Claims found after waiting for %d seconds'' [I maxWaitForClaims]],
            Inl (NoClaimsFound maxWaitForClaims))
         else
           apfst ((#) Sleep)
             (waitForClaims p maxWaitForClaims pv claimName (i + 1) (Suc k)))
      else ([], Inr (Suc k)))"
  by pat_completeness auto
termination
  by (relation "measure (\<lambda>(p, m, pv, claimName, i, k). nat (m + 1 - i))") auto

declare waitForClaims.simps [simp del]

text \<open>The second loop, over one snapshot of the store, and what follows it.\<close>

fun scanClaims ::
  "PersistentVolume \<Rightarrow> string \<Rightarrow> obj list
     \<Rightarrow> effect list \<times> (perror + PersistentVolumeClaim option)"
where
  "scanClaims pv claimName [] =
     ([LogError ''clone of a pvc(%s) for namespace(%s) was requested but we couldn't find it''
         [S claimName, S (pv_Namespace pv)],
       Event pv EventTypeWarning ''ProvisionStorage'' (notFoundMessage pv claimName)],
      Inr None)"
| "scanClaims pv claimName (pvc # rest) =
     (case getPersistentVolumeClaim pvc of
        Inl err \<Rightarrow> ([], Inl err)
      | Inr claim \<Rightarrow>
          if pvc_Name claim = claimName \<and> pvc_Namespace claim = pv_Namespace pv
             \<and> pvc_Phase claim = ClaimBound
          then ([], Inr (Some claim))
          else scanClaims pv claimName rest)"

definition getClaimFromPVCName ::
  "Provisioner \<Rightarrow> int \<Rightarrow> PersistentVolume \<Rightarrow> string
     \<Rightarrow> effect list \<times> (perror + PersistentVolumeClaim option)"
where
  "getClaimFromPVCName p maxWaitForClaims pv claimName =
     (case waitForClaims p maxWaitForClaims pv claimName 0 0 of
        (es, Inl err) \<Rightarrow> (es, Inl err)
      | (es, Inr k) \<Rightarrow> apfst ((@) es) (scanClaims pv claimName (claimsStore p k)))"

subsection \<open>Override merge\<close>

text \<open>
  \<open>range\<close> over a Go map visits the keys in an order the runtime chooses, and each
  \<open>range\<close> statement may choose another: \<open>sched n\<close> is the key order of the \<open>n\<close>-th
  pass over the claim's annotations. \<open>strings.ToLower\<close> (a Unicode case mapping) is an
  argument. \<open>optionsMap\<close> is a map reference, \<open>None\<close> being the nil map: reading a key
  of it finds nothing, assigning to it panics. The map is updated in place and returned.
\<close>

fun rangeAnnotations ::
  "(string \<Rightarrow> string) \<Rightarrow> string \<Rightarrow> (string \<rightharpoonup> string) \<Rightarrow> string \<Rightarrow> string list
     \<Rightarrow> options option \<Rightarrow> effect list \<times> (perror + options option)"
where
  "rangeAnnotations ToLower provisionerName annotations override [] optionsMap =
     ([], Inr optionsMap)"
| "rangeAnnotations ToLower provisionerName annotations override (key # keys) optionsMap =
     (case annotations key of
        None \<Rightarrow> rangeAnnotations ToLower provisionerName annotations override keys optionsMap
      | Some annotation \<Rightarrow>
          if prefix (provisionerName @ ToLower override) (ToLower key) then
            (case optionsMap of
               None \<Rightarrow> ([], Inl NilMapAssignment)
             | Some m \<Rightarrow>
                 apfst ((@) (case m override of
                               Some valOpt \<Rightarrow>
                                 [LogInfo ''key %v exist with val %v, overriding with pvc annotation %v''
                                    [S override, V valOpt, S annotation]]
                             | None \<Rightarrow> []))
                   (rangeAnnotations ToLower provisionerName annotations override keys
                      (Some (m(override \<mapsto> VString annotation)))))
          else rangeAnnotations ToLower provisionerName annotations override keys optionsMap)"

fun rangeOverrides ::
  "(string \<Rightarrow> string) \<Rightarrow> (nat \<Rightarrow> string list) \<Rightarrow> string \<Rightarrow> (string \<rightharpoonup> string) \<Rightarrow> nat
     \<Rightarrow> string list \<Rightarrow> options option \<Rightarrow> effect list \<times> (perror + options option)"
where
  "rangeOverrides ToLower sched provisionerName annotations n [] optionsMap =
     ([], Inr optionsMap)"
| "rangeOverrides ToLower sched provisionerName annotations n (override # rest) optionsMap =
     (case rangeAnnotations ToLower provisionerName annotations override (sched n) optionsMap of
        (es, Inl err) \<Rightarrow> (es, Inl err)
      | (es, Inr optionsMap') \<Rightarrow>
          apfst ((@) es)
            (rangeOverrides ToLower sched provisionerName annotations (Suc n) rest optionsMap'))"

definition getClaimOverrideOptions ::
  "(string \<Rightarrow> string) \<Rightarrow> (nat \<Rightarrow> string list) \<Rightarrow> Provisioner \<Rightarrow> PersistentVolumeClaim
     \<Rightarrow> string list \<Rightarrow> options option \<Rightarrow> effect list \<times> (perror + options option)"
where
  "getClaimOverrideOptions ToLower sched p claim overrides optionsMap =
     (let provisionerName = namePrefix p
      in rangeOverrides ToLower sched provisionerName (pvc_Annotations claim) 0
           overrides optionsMap)"

text \<open>An annotation key matches an override key.\<close>

abbreviation matchesOverride :: "(string \<Rightarrow> string) \<Rightarrow> string \<Rightarrow> string \<Rightarrow> string \<Rightarrow> bool" where
  "matchesOverride ToLower provisionerName override key \<equiv>
     prefix (provisionerName @ ToLower override) (ToLower key)"

text \<open>Lower-casing of ASCII text, which is what \<open>strings.ToLower\<close> does on ASCII.\<close>

definition asciiLower :: "string \<Rightarrow> string" where
  "asciiLower s =
     map (\<lambda>c. case map_of (zip ''ABCDEFGHIJKLMNOPQRSTUVWXYZ'' ''abcdefghijklmnopqrstuvwxyz'') c of
                Some l \<Rightarrow> l
              | None \<Rightarrow> c) s"

section \<open>The volume plugin client (package dockervol)\<close>

subsection \<open>Constants and wire structures\<close>

definition ActivateURI :: string where "ActivateURI = ''/Plugin.Activate''"
definition CreateURI :: string where "CreateURI = ''/VolumeDriver.Create''"
definition ListURI :: string where "ListURI = ''/VolumeDriver.List''"
definition CapabilitiesURI :: string where "CapabilitiesURI = ''/VolumeDriver.Capabilities''"
definition RemoveURI :: string where "RemoveURI = ''/VolumeDriver.Remove''"
definition MountURI :: string where "MountURI = ''/VolumeDriver.Mount''"
definition UnmountURI :: string where "UnmountURI = ''/VolumeDriver.Unmount''"
definition GetURI :: string where "GetURI = ''/VolumeDriver.Get''"
definition NotFound :: string where "NotFound = ''Unable to find''"
definition defaultSocketPath :: string where
  "defaultSocketPath = ''/run/docker/plugins/nimble.sock''"

record Options =
  opt_SocketPath :: string
  opt_StripK8sFromOptions :: bool
  opt_LogFilePath :: string
  opt_Debug :: bool
  opt_CreateVolumes :: bool
  opt_ListOfStorageResourceOptions :: "string list"
  opt_FactorForConversion :: int

text \<open>
  \<open>client\<close> is the socket client, known by the socket path it was created for.
\<close>

record DockerVolumePlugin =
  stripK8sOpts :: bool
  client :: string
  dvp_ListOfStorageResourceOptions :: "string list"
  dvp_FactorForConversion :: int

text \<open>
  In a request, the option map is the map as it is when the request is handed to the
  transport. A nil option map and an empty one are the same here: \<open>range\<close> visits
  nothing in either, and \<open>omitempty\<close> drops both from the JSON text.
\<close>

record Request =
  req_Name :: string
  req_Opts :: options

record MountRequest =
  mreq_Name :: string
  mreq_ID :: string

record DockerVolume =
  vol_Name :: string
  vol_Mountpoint :: string
  vol_Status :: options

record MountResponse =
  mr_Mountpoint :: string
  mr_Err :: string

record GetResponse =
  gr_Volume :: DockerVolume
  gr_Err :: string

record GetListResponse =
  glr_Volumes :: "DockerVolume list"
  glr_Err :: string

record PluginCapabilities =
  cap_Scope :: string

record CapResponse =
  cr_Capabilities :: PluginCapabilities

datatype payload =
    EmptyPayload
  | RequestPayload Request
  | MountPayload MountRequest

record conn_Request =
  rq_Action :: string
  rq_Path :: string
  rq_Payload :: payload

datatype derror =
    NameRequired
  | TransportError string
  | DriverError string
  | PluginsGetFailed string
  | PluginDisabled string
  | PluginNotFound string

fun Error :: "derror \<Rightarrow> string" where
  "Error NameRequired = ''name is required''"
| "Error (TransportError msg) = msg"
| "Error (DriverError msg) = msg"
| "Error (PluginsGetFailed msg) = ''failed to get V2 plugins from docker. error='' @ msg"
| "Error (PluginDisabled name) =
     ''found Docker V2 Plugin named '' @ name @ '', but it is disabled''"
| "Error (PluginNotFound name) = ''unable to find V2 plugin named '' @ name"

text \<open>
  The transport (\<open>connectivity.Client.DoJSON\<close>) belongs to another package: it is the
  argument \<open>DoJSON\<close>, which for a socket and a request gives either a transport error
  or the JSON object of the reply. The reply is decoded into the response structure the
  request names, member by member after the \<open>json\<close> tags of that structure: members it
  does not declare are dropped, members the reply lacks stay at their zero value.
\<close>

record wire =
  w_Capabilities :: PluginCapabilities
  w_Volume :: DockerVolume
  w_Volumes :: "DockerVolume list"
  w_Mountpoint :: string
  w_Err :: string

definition decodeCapResponse :: "wire \<Rightarrow> CapResponse" where
  "decodeCapResponse w = \<lparr>cr_Capabilities = w_Capabilities w\<rparr>"

definition decodeGetResponse :: "wire \<Rightarrow> GetResponse" where
  "decodeGetResponse w = \<lparr>gr_Volume = w_Volume w, gr_Err = w_Err w\<rparr>"

definition decodeGetListResponse :: "wire \<Rightarrow> GetListResponse" where
  "decodeGetListResponse w = \<lparr>glr_Volumes = w_Volumes w, glr_Err = w_Err w\<rparr>"

definition decodeMountResponse :: "wire \<Rightarrow> MountResponse" where
  "decodeMountResponse w = \<lparr>mr_Mountpoint = w_Mountpoint w, mr_Err = w_Err w\<rparr>"

type_synonym transport = "string \<Rightarrow> conn_Request \<Rightarrow> derror + wire"

subsection \<open>Operations\<close>

text \<open>
  Every operation returns the requests it handed to the transport, in order, next to its
  result. \<open>fmt.Errorf\<close> called with the error text as its only argument takes that text
  as a format string; it is the argument \<open>Errorf\<close>. Log output of this package is not
  modelled.
\<close>

definition driverRun :: "transport \<Rightarrow> DockerVolumePlugin \<Rightarrow> conn_Request \<Rightarrow> derror + wire" where
  "driverRun DoJSON dvp r = DoJSON (client dvp) r"

definition driverErrorCheck :: "(string \<Rightarrow> string) \<Rightarrow> ('e \<Rightarrow> string) \<Rightarrow> 'e \<Rightarrow> derror option" where
  "driverErrorCheck Errorf getErr e =
     (if getErr e \<noteq> [] then Some (DriverError (Errorf (getErr e))) else None)"

definition Capabilities ::
  "transport \<Rightarrow> DockerVolumePlugin \<Rightarrow> conn_Request list \<times> (derror + CapResponse)"
where
  "Capabilities DoJSON dvp =
     (let r = \<lparr>rq_Action = ''POST'', rq_Path = CapabilitiesURI, rq_Payload = EmptyPayload\<rparr>
      in case driverRun DoJSON dvp r of
           Inl err \<Rightarrow> ([r], Inl err)
         | Inr w \<Rightarrow> ([r], Inr (decodeCapResponse w)))"

definition Get ::
  "transport \<Rightarrow> (string \<Rightarrow> string) \<Rightarrow> DockerVolumePlugin \<Rightarrow> string
     \<Rightarrow> conn_Request list \<times> (derror + GetResponse)"
where
  "Get DoJSON Errorf dvp name =
     (let req = \<lparr>req_Name = name, req_Opts = Map.empty\<rparr>;
          r = \<lparr>rq_Action = ''POST'', rq_Path = GetURI, rq_Payload = RequestPayload req\<rparr>
      in case driverRun DoJSON dvp r of
           Inl err \<Rightarrow> ([r], Inl err)
         | Inr w \<Rightarrow>
             let res = decodeGetResponse w
             in (case driverErrorCheck Errorf gr_Err res of
                   Some err \<Rightarrow> ([r], Inl err)
                 | None \<Rightarrow> ([r], Inr res)))"

definition List ::
  "transport \<Rightarrow> (string \<Rightarrow> string) \<Rightarrow> DockerVolumePlugin
     \<Rightarrow> conn_Request list \<times> (derror + GetListResponse)"
where
  "List DoJSON Errorf dvp =
     (let req = \<lparr>req_Name = [], req_Opts = Map.empty\<rparr>;
          r = \<lparr>rq_Action = ''POST'', rq_Path = ListURI, rq_Payload = RequestPayload req\<rparr>
      in case driverRun DoJSON dvp r of
           Inl err \<Rightarrow> ([r], Inl err)
         | Inr w \<Rightarrow>
             let res = decodeGetListResponse w
             in (case driverErrorCheck Errorf glr_Err res of
                   Some err \<Rightarrow> ([r], Inl err)
                 | None \<Rightarrow> ([r], Inr res)))"

text \<open>
  The \<open>range\<close> loop of \<open>Create\<close>. It deletes only the key it is visiting, so it
  visits every key of the map once, in the order \<open>keys\<close> the runtime chooses.
\<close>

fun rangeDelete :: "bool \<Rightarrow> string list \<Rightarrow> options \<Rightarrow> options" where
  "rangeDelete strip [] options = options"
| "rangeDelete strip (key # keys) options =
     (if key = ''name'' \<or> (strip \<and> prefix ''kubernetes.io'' key)
      then rangeDelete strip keys (options(key := None))
      else rangeDelete strip keys options)"

text \<open>
  \<open>Create\<close> deletes from the map its caller passed: the first component of the result
  is that map as the caller finds it after the call.
\<close>

definition Create ::
  "transport \<Rightarrow> (string \<Rightarrow> string) \<Rightarrow> string list \<Rightarrow> DockerVolumePlugin \<Rightarrow> string \<Rightarrow> options
     \<Rightarrow> options \<times> conn_Request list \<times> (derror + string)"
where
  "Create DoJSON Errorf keys dvp name options =
     (if name = [] then (options, [], Inl NameRequired)
      else
        let options' = rangeDelete (stripK8sOpts dvp) keys options;
            req = \<lparr>req_Name = name, req_Opts = options'\<rparr>;
            r = \<lparr>rq_Action = ''POST'', rq_Path = CreateURI, rq_Payload = RequestPayload req\<rparr>
        in case driverRun DoJSON dvp r of
             Inl err \<Rightarrow> (options', [r], Inl err)
           | Inr w \<Rightarrow>
               let res = decodeGetResponse w
               in (case driverErrorCheck Errorf gr_Err res of
                     Some err \<Rightarrow> (options', [r], Inl err)
                   | None \<Rightarrow> (options', [r], Inr (vol_Name (gr_Volume res)))))"

definition mounter ::
  "transport \<Rightarrow> (string \<Rightarrow> string) \<Rightarrow> DockerVolumePlugin \<Rightarrow> string \<Rightarrow> string \<Rightarrow> string
     \<Rightarrow> conn_Request list \<times> (derror + string)"
where
  "mounter DoJSON Errorf dvp name mountID path =
     (if name = [] then ([], Inl NameRequired)
      else
        let req = \<lparr>mreq_Name = name, mreq_ID = mountID\<rparr>;
            r = \<lparr>rq_Action = ''POST'', rq_Path = path, rq_Payload = MountPayload req\<rparr>
        in case driverRun DoJSON dvp r of
             Inl err \<Rightarrow> ([r], Inl err)
           | Inr w \<Rightarrow>
               let res = decodeMountResponse w
               in (case driverErrorCheck Errorf mr_Err res of
                     Some err \<Rightarrow> ([r], Inl err)
                   | None \<Rightarrow> ([r], Inr (mr_Mountpoint res))))"

definition Mount ::
  "transport \<Rightarrow> (string \<Rightarrow> string) \<Rightarrow> DockerVolumePlugin \<Rightarrow> string \<Rightarrow> string
     \<Rightarrow> conn_Request list \<times> (derror + string)"
where
  "Mount DoJSON Errorf dvp name mountID =
     (case mounter DoJSON Errorf dvp name mountID MountURI of
        (sent, Inl err) \<Rightarrow> (sent, Inl err)
      | (sent, Inr m) \<Rightarrow> (sent, Inr m))"

definition Unmount ::
  "transport \<Rightarrow> (string \<Rightarrow> string) \<Rightarrow> DockerVolumePlugin \<Rightarrow> string \<Rightarrow> string
     \<Rightarrow> conn_Request list \<times> derror option"
where
  "Unmount DoJSON Errorf dvp name mountID =
     (case mounter DoJSON Errorf dvp name mountID UnmountURI of
        (sent, Inl err) \<Rightarrow> (sent, Some err)
      | (sent, Inr m) \<Rightarrow> (sent, None))"

definition Delete ::
  "transport \<Rightarrow> (string \<Rightarrow> string) \<Rightarrow> DockerVolumePlugin \<Rightarrow> string
     \<Rightarrow> conn_Request list \<times> derror option"
where
  "Delete DoJSON Errorf dvp name =
     (if name = [] then ([], Some NameRequired)
      else
        let req = \<lparr>req_Name = name, req_Opts = Map.empty\<rparr>;
            r = \<lparr>rq_Action = ''POST'', rq_Path = RemoveURI, rq_Payload = RequestPayload req\<rparr>
        in case driverRun DoJSON dvp r of
             Inl err \<Rightarrow> ([r], Some err)
           | Inr w \<Rightarrow>
               let res = decodeGetResponse w
               in (case driverErrorCheck Errorf gr_Err res of
                     Some err \<Rightarrow> ([r], Some err)
                   | None \<Rightarrow> ([r], None)))"

subsection \<open>Plugin discovery and construction\<close>

text \<open>
  An entry of docker's plugin list, with the fields \<open>getV2PluginSocket\<close> reads. The
  query \<open>dockerlt.NewDockerClient(dockerSocket).PluginsGet()\<close> belongs to another
  package: it is the argument \<open>PluginsGet\<close>, giving the error text or the list.
\<close>

record Plugin =
  plugin_Name :: string
  plugin_ID :: string
  plugin_Enabled :: bool
  plugin_Socket :: string

fun rangePlugins :: "string \<Rightarrow> Plugin list \<Rightarrow> string \<times> derror option" where
  "rangePlugins name [] = ([], Some (PluginNotFound name))"
| "rangePlugins name (plugin # plugins) =
     (if name = plugin_Name plugin \<or> name @ '':latest'' = plugin_Name plugin then
        (if \<not> plugin_Enabled plugin then
           (''/run/docker/plugins/'' @ plugin_ID plugin @ ''/'' @ plugin_Socket plugin,
            Some (PluginDisabled name))
         else
           (''/run/docker/plugins/'' @ plugin_ID plugin @ ''/'' @ plugin_Socket plugin, None))
      else rangePlugins name plugins)"

definition getV2PluginSocket ::
  "(string \<Rightarrow> string + Plugin list) \<Rightarrow> string \<Rightarrow> string \<Rightarrow> string \<times> derror option"
where
  "getV2PluginSocket PluginsGet name dockerSocket =
     (case PluginsGet dockerSocket of
        Inl err \<Rightarrow> ([], Some (PluginsGetFailed err))
      | Inr plugins \<Rightarrow> rangePlugins name plugins)"

text \<open>
  \<open>NewDockerVolumePlugin\<close> receives a pointer to the options and writes the socket path
  into them: the first component of the result is the options after the call. Then come
  the requests sent, the client (\<open>None\<close> is nil) and the error (\<open>None\<close> is nil).
\<close>

definition NewDockerVolumePlugin ::
  "(string \<Rightarrow> string + Plugin list) \<Rightarrow> transport \<Rightarrow> Options
     \<Rightarrow> Options \<times> conn_Request list \<times> DockerVolumePlugin option \<times> derror option"
where
  "NewDockerVolumePlugin PluginsGet DoJSON options =
     (let (options, err) =
            (if \<not> prefix ''/'' (opt_SocketPath options) then
               (case getV2PluginSocket PluginsGet (opt_SocketPath options) [] of
                  (socketPath, err) \<Rightarrow> (options\<lparr>opt_SocketPath := socketPath\<rparr>, err))
             else (options, None))
      in case err of
           Some e \<Rightarrow> (options, [], None, Some e)
         | None \<Rightarrow>
             let options = (if opt_SocketPath options = []
                            then options\<lparr>opt_SocketPath := defaultSocketPath\<rparr>
                            else options);
                 dvp = \<lparr>stripK8sOpts = opt_StripK8sFromOptions options,
                        client = opt_SocketPath options,
                        dvp_ListOfStorageResourceOptions = opt_ListOfStorageResourceOptions options,
                        dvp_FactorForConversion = opt_FactorForConversion options\<rparr>
             in (case Capabilities DoJSON dvp of
                   (sent, Inl err) \<Rightarrow> (options, sent, Some dvp, Some err)
                 | (sent, Inr res) \<Rightarrow> (options, sent, Some dvp, None)))"

section \<open>Example values\<close>

definition exClaim :: PersistentVolumeClaim where
  "exClaim =
     \<lparr>pvc_Name = ''c1'', pvc_Namespace = ''ns'', pvc_UID = ''uid-1'',
      pvc_Annotations = [BetaStorageClassAnnotation \<mapsto> ''gold''],
      pvc_StorageClassName = Some ''silver'', pvc_Phase = ClaimBound\<rparr>"

definition exVolume :: PersistentVolume where
  "exVolume = \<lparr>pv_Name = ''vol'', pv_Namespace = ''ns''\<rparr>"

definition exClass :: StorageClass where
  "exClass = \<lparr>sc_Name = ''gold'', sc_Provisioner = ''hpe.com/nimble'', sc_Parameters = Map.empty\<rparr>"

definition exGetClass :: "string \<Rightarrow> string + StorageClass" where
  "exGetClass name = (if name = ''gold'' then Inr exClass else Inl ''not found'')"

text \<open>A store that holds the same objects at every call, and fixed collaborators.\<close>

definition constStore :: "obj list \<Rightarrow> nat \<Rightarrow> obj list" where
  "constStore objs k = objs"

definition replyWith :: "wire \<Rightarrow> transport" where
  "replyWith w socket r = Inr w"

definition failWith :: "derror \<Rightarrow> transport" where
  "failWith e socket r = Inl e"

definition registryOf :: "Plugin list \<Rightarrow> string \<Rightarrow> string + Plugin list" where
  "registryOf plugins dockerSocket = Inr plugins"

text \<open>\<open>fmt.Errorf\<close> on a text without formatting directives gives the text.\<close>

definition verbatim :: "string \<Rightarrow> string" where
  "verbatim t = t"

declare constStore_def [simp] replyWith_def [simp] failWith_def [simp]
  registryOf_def [simp] verbatim_def [simp]

definition exPlugin :: Plugin where
  "exPlugin = \<lparr>plugin_Name = ''nimble'', plugin_ID = ''X'', plugin_Enabled = True,
               plugin_Socket = ''nimble.sock''\<rparr>"

definition exClient :: DockerVolumePlugin where
  "exClient = \<lparr>stripK8sOpts = True, client = ''/run/docker/plugins/X/nimble.sock'',
               dvp_ListOfStorageResourceOptions = [], dvp_FactorForConversion = 1\<rparr>"

definition exReply :: wire where
  "exReply = \<lparr>w_Capabilities = \<lparr>cap_Scope = ''global''\<rparr>,
              w_Volume = \<lparr>vol_Name = ''v1'', vol_Mountpoint = ''/mnt/v1'', vol_Status = Map.empty\<rparr>,
              w_Volumes = [], w_Mountpoint = ''/mnt/v1'', w_Err = ''boom''\<rparr>"

definition exOptions :: Options where
  "exOptions = \<lparr>opt_SocketPath = ''nimble'', opt_StripK8sFromOptions = True,
                opt_LogFilePath = [], opt_Debug = False, opt_CreateVolumes = True,
                opt_ListOfStorageResourceOptions = [], opt_FactorForConversion = 1\<rparr>"

section \<open>Properties\<close>

text \<open>
  C4. Class-name resolution returns the legacy annotation's value whenever the legacy
  annotation key is present, whatever the structured class-name field holds; when the
  key is absent it returns the structured field's value, and the empty string when the
  structured field is unset as well.
\<close>

theorem getClaimClassName_resolution:
  "(\<forall>v. pvc_Annotations claim BetaStorageClassAnnotation = Some v
        \<longrightarrow> getClaimClassName claim = v)
   \<and> (pvc_Annotations claim BetaStorageClassAnnotation = None
        \<longrightarrow> getClaimClassName claim =
            (case pvc_StorageClassName claim of Some s \<Rightarrow> s | None \<Rightarrow> []))"
  by (auto simp: getClaimClassName_def split: option.splits)

theorem getClaimClassName_resolution_witness:
  "getClaimClassName
     \<lparr>pvc_Name = ''c1'', pvc_Namespace = ''ns'', pvc_UID = ''u1'',
      pvc_Annotations = [BetaStorageClassAnnotation \<mapsto> ''gold''],
      pvc_StorageClassName = Some ''silver'', pvc_Phase = ClaimPending\<rparr> = ''gold''
   \<and> getClaimClassName
     \<lparr>pvc_Name = ''c1'', pvc_Namespace = ''ns'', pvc_UID = ''u1'',
      pvc_Annotations = Map.empty,
      pvc_StorageClassName = Some ''silver'', pvc_Phase = ClaimPending\<rparr> = ''silver''
   \<and> getClaimClassName
     \<lparr>pvc_Name = ''c1'', pvc_Namespace = ''ns'', pvc_UID = ''u1'',
      pvc_Annotations = Map.empty,
      pvc_StorageClassName = None, pvc_Phase = ClaimPending\<rparr> = []"
  using getClaimClassName_resolution
          [of "\<lparr>pvc_Name = ''c1'', pvc_Namespace = ''ns'', pvc_UID = ''u1'',
                pvc_Annotations = [BetaStorageClassAnnotation \<mapsto> ''gold''],
                pvc_StorageClassName = Some ''silver'', pvc_Phase = ClaimPending\<rparr>"]
        getClaimClassName_resolution
          [of "\<lparr>pvc_Name = ''c1'', pvc_Namespace = ''ns'', pvc_UID = ''u1'',
                pvc_Annotations = Map.empty,
                pvc_StorageClassName = Some ''silver'', pvc_Phase = ClaimPending\<rparr>"]
        getClaimClassName_resolution
          [of "\<lparr>pvc_Name = ''c1'', pvc_Namespace = ''ns'', pvc_UID = ''u1'',
                pvc_Annotations = Map.empty,
                pvc_StorageClassName = None, pvc_Phase = ClaimPending\<rparr>"]
  by simp

subsection \<open>The add-event handler\<close>

text \<open>
  C5. The add-event handler invokes provisioning for a claim if and only if the claim's
  phase is Pending, its class name resolves to a class the class store knows, and that
  class's provisioner identifier starts with the configured name prefix; then it logs,
  registers the claim's unique id and provisions. In every other case the only effect is
  one log line: no provisioning, no registration, no retry.
\<close>

theorem processAddedClaim_eligible:
  "(\<forall>class. pvc_Phase claim = ClaimPending
        \<and> getClass (getClaimClassName claim) = Inr class
        \<and> prefix (namePrefix p) (sc_Provisioner class)
      \<longrightarrow> processAddedClaim p getClass claim =
            [LogInfo ''processAddedClaim: provisioner:%s pvc:%s  class:%s''
               [S (sc_Provisioner class), S (pvc_Name claim), S (getClaimClassName claim)],
             AddMessageChan (pvc_UID claim),
             ProvisionVolume claim class])
   \<and> (\<not> (\<exists>class. pvc_Phase claim = ClaimPending
        \<and> getClass (getClaimClassName claim) = Inr class
        \<and> prefix (namePrefix p) (sc_Provisioner class))
      \<longrightarrow> (\<exists>format args. processAddedClaim p getClass claim = [LogInfo format args]
                        \<or> processAddedClaim p getClass claim = [LogError format args]))
   \<and> (addedClaim p getClass (PtrClaim claim) = processAddedClaim p getClass claim)
   \<and> (addedClaim p getClass (ValClaim claim) = processAddedClaim p getClass claim)"
  by (auto simp: processAddedClaim_def addedClaim_def Let_def split: sum.splits)

theorem processAddedClaim_eligible_witness:
  "processAddedClaim \<lparr>namePrefix = ''hpe.com/'', claimsStore = (\<lambda>k. [])\<rparr> exGetClass
     (exClaim\<lparr>pvc_Phase := ClaimPending\<rparr>) =
     [LogInfo ''processAddedClaim: provisioner:%s pvc:%s  class:%s''
        [S ''hpe.com/nimble'', S ''c1'', S ''gold''],
      AddMessageChan ''uid-1'',
      ProvisionVolume (exClaim\<lparr>pvc_Phase := ClaimPending\<rparr>) exClass]
   \<and> (\<exists>format args.
         processAddedClaim \<lparr>namePrefix = ''hpe.com/'', claimsStore = (\<lambda>k. [])\<rparr> exGetClass exClaim
           = [LogInfo format args]
       \<or> processAddedClaim \<lparr>namePrefix = ''hpe.com/'', claimsStore = (\<lambda>k. [])\<rparr> exGetClass exClaim
           = [LogError format args])"
proof -
  have eligible:
    "pvc_Phase (exClaim\<lparr>pvc_Phase := ClaimPending\<rparr>) = ClaimPending
     \<and> exGetClass (getClaimClassName (exClaim\<lparr>pvc_Phase := ClaimPending\<rparr>)) = Inr exClass
     \<and> prefix (namePrefix \<lparr>namePrefix = ''hpe.com/'', claimsStore = (\<lambda>k. [])\<rparr>)
          (sc_Provisioner exClass)"
    by (simp add: exClaim_def exGetClass_def exClass_def getClaimClassName_def)
  have skipped:
    "\<not> (\<exists>class. pvc_Phase exClaim = ClaimPending
        \<and> exGetClass (getClaimClassName exClaim) = Inr class
        \<and> prefix (namePrefix \<lparr>namePrefix = ''hpe.com/'', claimsStore = (\<lambda>k. [])\<rparr>)
             (sc_Provisioner class))"
    by (simp add: exClaim_def ClaimBound_def ClaimPending_def)
  from eligible skipped
    processAddedClaim_eligible
      [of "exClaim\<lparr>pvc_Phase := ClaimPending\<rparr>" exGetClass
          "\<lparr>namePrefix = ''hpe.com/'', claimsStore = (\<lambda>k. [])\<rparr>"]
    processAddedClaim_eligible
      [of exClaim exGetClass "\<lparr>namePrefix = ''hpe.com/'', claimsStore = (\<lambda>k. [])\<rparr>"]
  show ?thesis
    by (simp add: exClaim_def exClass_def getClaimClassName_def)
qed

subsection \<open>Cross-reference resolution\<close>

lemma waitForClaims_nonempty:
  "claimsStore p k \<noteq> [] \<Longrightarrow> waitForClaims p m pv cn i k = ([], Inr (Suc k))"
  by (simp add: waitForClaims.simps[of p m pv cn i k])

lemma waitForClaims_empty_prefix:
  "\<forall>j<n. claimsStore p (k + j) = [] \<Longrightarrow> claimsStore p (k + n) \<noteq> [] \<Longrightarrow> n = 0 \<or> i + int n \<le> m + 1 \<Longrightarrow>
   waitForClaims p m pv cn i k = (replicate n Sleep, Inr (Suc (k + n)))"
proof (induction n arbitrary: i k)
  case 0
  then show ?case by (simp add: waitForClaims_nonempty)
next
  case (Suc n)
  have e: "claimsStore p k = []" using Suc.prems(1) by (metis add.right_neutral zero_less_Suc)
  have "waitForClaims p m pv cn (i + 1) (Suc k) = (replicate n Sleep, Inr (Suc (Suc k + n)))"
    using Suc.prems by (intro Suc.IH) (auto simp: less_Suc_eq_0_disj)
  with e Suc.prems(3) show ?case by (simp add: waitForClaims.simps[of p m pv cn i k])
qed

lemma waitForClaims_always_empty:
  "\<forall>k. claimsStore p k = [] \<Longrightarrow>
   \<exists>n. waitForClaims p m pv cn i k =
     (replicate n Sleep @
        [Event pv EventTypeWarning ''ProvisionStorage'' (notFoundMessage pv cn),
         LogInfo ''No Claims found after waiting for %d seconds'' [I m]],
      Inl (NoClaimsFound m))"
proof (induction p m pv cn i k rule: waitForClaims.induct)
  case (1 p m pv cn i k)
  show ?case
  proof (cases "i > m")
    case True
    then show ?thesis using 1(2) by (intro exI[of _ 0]) (simp add: waitForClaims.simps[of p m pv cn i k])
  next
    case False
    then obtain n where "waitForClaims p m pv cn (i + 1) (Suc k) =
     (replicate n Sleep @
        [Event pv EventTypeWarning ''ProvisionStorage'' (notFoundMessage pv cn),
         LogInfo ''No Claims found after waiting for %d seconds'' [I m]],
      Inl (NoClaimsFound m))" using 1 by fastforce
    then show ?thesis using False 1(2) by (intro exI[of _ "Suc n"]) (simp add: waitForClaims.simps[of p m pv cn i k])
  qed
qed

lemma events_replicate_Sleep: "events (replicate n Sleep @ es) = events es"
  by (induction n) simp_all

lemma events_replicate_Sleep_only: "events (replicate n Sleep) = []"
  by (induction n) simp_all

lemma getClaimFromPVCName_scan:
  "waitForClaims p m pv cn 0 0 = (es, Inr k) \<Longrightarrow>
   getClaimFromPVCName p m pv cn =
     (es @ fst (scanClaims pv cn (claimsStore p k)), snd (scanClaims pv cn (claimsStore p k)))"
  by (simp add: getClaimFromPVCName_def apfst_def map_prod_def split: prod.splits)

lemma events_append: "events (xs @ ys) = events xs @ events ys"
  by (induction xs rule: events.induct) simp_all

lemma waitForClaims_cases:
  "\<exists>n. (\<exists>k'. waitForClaims p m pv cn i k = (replicate n Sleep, Inr k'))
     \<or> waitForClaims p m pv cn i k =
         (replicate n Sleep @
            [Event pv EventTypeWarning ''ProvisionStorage'' (notFoundMessage pv cn),
             LogInfo ''No Claims found after waiting for %d seconds'' [I m]],
          Inl (NoClaimsFound m))"
proof (induction p m pv cn i k rule: waitForClaims.induct)
  case (1 p m pv cn i k)
  show ?case
  proof (cases "claimsStore p k = []")
    case False
    then show ?thesis by (intro exI[of _ 0]) (simp add: waitForClaims_nonempty)
  next
    case empty: True
    show ?thesis
    proof (cases "i > m")
      case True
      then show ?thesis using empty by (intro exI[of _ 0]) (simp add: waitForClaims.simps[of p m pv cn i k])
    next
      case False
      with empty 1 obtain n where
        "(\<exists>k'. waitForClaims p m pv cn (i + 1) (Suc k) = (replicate n Sleep, Inr k'))
         \<or> waitForClaims p m pv cn (i + 1) (Suc k) =
         (replicate n Sleep @
            [Event pv EventTypeWarning ''ProvisionStorage'' (notFoundMessage pv cn),
             LogInfo ''No Claims found after waiting for %d seconds'' [I m]],
          Inl (NoClaimsFound m))"
        by fastforce
      then show ?thesis using False empty
        by (intro exI[of _ "Suc n"]) (auto simp: waitForClaims.simps[of p m pv cn i k])
    qed
  qed
qed

lemma scanClaims_cases:
  "(\<exists>c. scanClaims pv cn objs = ([], Inr (Some c))
        \<and> (\<exists>pvc\<in>set objs. getPersistentVolumeClaim pvc = Inr c)
        \<and> pvc_Name c = cn \<and> pvc_Namespace c = pv_Namespace pv \<and> pvc_Phase c = ClaimBound)
   \<or> scanClaims pv cn objs =
        ([LogError ''clone of a pvc(%s) for namespace(%s) was requested but we couldn't find it''
            [S cn, S (pv_Namespace pv)],
          Event pv EventTypeWarning ''ProvisionStorage'' (notFoundMessage pv cn)],
         Inr None)
   \<or> (\<exists>ty v. scanClaims pv cn objs = ([], Inl (UnexpectedType ty v)) \<and> Other ty v \<in> set objs)"
proof (induction objs)
  case Nil
  then show ?case by simp
next
  case (Cons pvc rest)
  show ?case
  proof (cases pvc)
    case (Other ty v)
    then show ?thesis by simp
  next
    case (PtrClaim c)
    then show ?thesis using Cons.IH by auto
  next
    case (ValClaim c)
    then show ?thesis using Cons.IH by auto
  qed
qed

lemma scanClaims_PtrClaims:
  "scanClaims pv cn (map PtrClaim cs) =
     (case find (\<lambda>c. pvc_Name c = cn \<and> pvc_Namespace c = pv_Namespace pv
                      \<and> pvc_Phase c = ClaimBound) cs of
        Some c \<Rightarrow> ([], Inr (Some c))
      | None \<Rightarrow>
          ([LogError ''clone of a pvc(%s) for namespace(%s) was requested but we couldn't find it''
              [S cn, S (pv_Namespace pv)],
            Event pv EventTypeWarning ''ProvisionStorage'' (notFoundMessage pv cn)],
           Inr None))"
  by (induction cs) simp_all

text \<open>
  The cache stays empty and the bound is 2: the loop sleeps three times before it gives
  up, since it leaves only once the counter exceeds the bound.
\<close>

lemma getClaimFromPVCName_empty_cache_bound_2:
  "getClaimFromPVCName \<lparr>namePrefix = [], claimsStore = constStore []\<rparr> 2 exVolume ''c1'' =
     ([Sleep, Sleep, Sleep,
       Event exVolume EventTypeWarning ''ProvisionStorage'' (notFoundMessage exVolume ''c1''),
       LogInfo ''No Claims found after waiting for %d seconds'' [I 2]],
      Inl (NoClaimsFound 2))"
  by (simp add: getClaimFromPVCName_def waitForClaims.simps constStore_def)

text \<open>
  C1, as stated, fails. With the cache \<open>[c2]\<close> and the request for \<open>c1\<close> no entry
  matches, yet the function does not sleep and does not retry: it returns no claim at
  once. With an empty cache and the bound 2 it sleeps three times, not twice.
\<close>

theorem getClaimFromPVCName_no_retry_counterexample:
  "count_list
     (fst (getClaimFromPVCName
             \<lparr>namePrefix = [],
              claimsStore = constStore [PtrClaim (exClaim\<lparr>pvc_Name := ''c2''\<rparr>)]\<rparr>
             2 exVolume ''c1'')) Sleep = 0
   \<and> snd (getClaimFromPVCName
             \<lparr>namePrefix = [],
              claimsStore = constStore [PtrClaim (exClaim\<lparr>pvc_Name := ''c2''\<rparr>)]\<rparr>
             2 exVolume ''c1'') = Inr None
   \<and> count_list
       (fst (getClaimFromPVCName \<lparr>namePrefix = [], claimsStore = constStore []\<rparr>
               2 exVolume ''c1''))
       Sleep = 3"
  by (simp add: getClaimFromPVCName_def waitForClaims.simps constStore_def exClaim_def
        exVolume_def)

text \<open>
  C1, amended. Resolution polls the cached claim set only while it is empty, sleeping
  one time unit after each empty poll. Once a poll within the wait bound finds the cache
  non-empty, it scans the cache once, without further sleeping, and returns the first
  entry whose name, namespace and phase (Bound) all match, or no claim when none matches.
  If the cache is empty at every poll it fails, after its sleeps, with the not-found
  error that names the bound.
\<close>

theorem getClaimFromPVCName_polls_while_empty:
  "(\<forall>n cs. (\<forall>j<n. claimsStore p j = []) \<and> claimsStore p n \<noteq> []
          \<and> (n = 0 \<or> int n \<le> maxWaitForClaims)
          \<and> claimsStore p (Suc n) = map PtrClaim cs
      \<longrightarrow> getClaimFromPVCName p maxWaitForClaims pv claimName =
            (case find (\<lambda>c. pvc_Name c = claimName \<and> pvc_Namespace c = pv_Namespace pv
                             \<and> pvc_Phase c = ClaimBound) cs of
               Some c \<Rightarrow> (replicate n Sleep, Inr (Some c))
             | None \<Rightarrow>
                 (replicate n Sleep @
                  [LogError ''clone of a pvc(%s) for namespace(%s) was requested but we couldn't find it''
                     [S claimName, S (pv_Namespace pv)],
                   Event pv EventTypeWarning ''ProvisionStorage''
                     (notFoundMessage pv claimName)],
                  Inr None)))
   \<and> ((\<forall>k. claimsStore p k = [])
      \<longrightarrow> (\<exists>n. getClaimFromPVCName p maxWaitForClaims pv claimName =
                 (replicate n Sleep @
                  [Event pv EventTypeWarning ''ProvisionStorage''
                     (notFoundMessage pv claimName),
                   LogInfo ''No Claims found after waiting for %d seconds''
                     [I maxWaitForClaims]],
                  Inl (NoClaimsFound maxWaitForClaims))))"
proof (intro conjI allI impI)
  fix n cs
  assume a: "(\<forall>j<n. claimsStore p j = []) \<and> claimsStore p n \<noteq> []
          \<and> (n = 0 \<or> int n \<le> maxWaitForClaims)
          \<and> claimsStore p (Suc n) = map PtrClaim cs"
  have "waitForClaims p maxWaitForClaims pv claimName 0 0 = (replicate n Sleep, Inr (Suc (0 + n)))"
    using a by (intro waitForClaims_empty_prefix) auto
  then show "getClaimFromPVCName p maxWaitForClaims pv claimName =
            (case find (\<lambda>c. pvc_Name c = claimName \<and> pvc_Namespace c = pv_Namespace pv
                             \<and> pvc_Phase c = ClaimBound) cs of
               Some c \<Rightarrow> (replicate n Sleep, Inr (Some c))
             | None \<Rightarrow>
                 (replicate n Sleep @
                  [LogError ''clone of a pvc(%s) for namespace(%s) was requested but we couldn't find it''
                     [S claimName, S (pv_Namespace pv)],
                   Event pv EventTypeWarning ''ProvisionStorage''
                     (notFoundMessage pv claimName)],
                  Inr None))"
    using a by (simp add: getClaimFromPVCName_def scanClaims_PtrClaims split: option.splits)
next
  assume "\<forall>k. claimsStore p k = []"
  from waitForClaims_always_empty[OF this, of maxWaitForClaims pv claimName 0 0]
  show "\<exists>n. getClaimFromPVCName p maxWaitForClaims pv claimName =
                 (replicate n Sleep @
                  [Event pv EventTypeWarning ''ProvisionStorage''
                     (notFoundMessage pv claimName),
                   LogInfo ''No Claims found after waiting for %d seconds''
                     [I maxWaitForClaims]],
                  Inl (NoClaimsFound maxWaitForClaims))"
    by (auto simp: getClaimFromPVCName_def)
qed

theorem getClaimFromPVCName_polls_while_empty_witness:
  "getClaimFromPVCName \<lparr>namePrefix = [], claimsStore = (\<lambda>k. [PtrClaim exClaim])\<rparr>
     2 exVolume ''c1'' = ([], Inr (Some exClaim))
   \<and> getClaimFromPVCName
       \<lparr>namePrefix = [],
        claimsStore = (\<lambda>k. if k < 2 then []
                            else [PtrClaim (exClaim\<lparr>pvc_Name := ''c2''\<rparr>), PtrClaim exClaim])\<rparr>
       2 exVolume ''c1'' = ([Sleep, Sleep], Inr (Some exClaim))
   \<and> (\<exists>n. getClaimFromPVCName \<lparr>namePrefix = [], claimsStore = (\<lambda>k. [])\<rparr> 2 exVolume ''c1'' =
          (replicate n Sleep @
           [Event exVolume EventTypeWarning ''ProvisionStorage'' (notFoundMessage exVolume ''c1''),
            LogInfo ''No Claims found after waiting for %d seconds'' [I 2]],
           Inl (NoClaimsFound 2)))"
proof (intro conjI)
  show "getClaimFromPVCName \<lparr>namePrefix = [], claimsStore = (\<lambda>k. [PtrClaim exClaim])\<rparr>
     2 exVolume ''c1'' = ([], Inr (Some exClaim))"
    using getClaimFromPVCName_polls_while_empty
            [of "\<lparr>namePrefix = [], claimsStore = (\<lambda>k. [PtrClaim exClaim])\<rparr>" 2 exVolume "''c1''",
             THEN conjunct1, rule_format, of 0 "[exClaim]"]
    by (simp add: exClaim_def exVolume_def)
  show "getClaimFromPVCName
       \<lparr>namePrefix = [],
        claimsStore = (\<lambda>k. if k < 2 then []
                            else [PtrClaim (exClaim\<lparr>pvc_Name := ''c2''\<rparr>), PtrClaim exClaim])\<rparr>
       2 exVolume ''c1'' = ([Sleep, Sleep], Inr (Some exClaim))"
    using getClaimFromPVCName_polls_while_empty
            [of "\<lparr>namePrefix = [],
                  claimsStore = (\<lambda>k. if k < 2 then []
                            else [PtrClaim (exClaim\<lparr>pvc_Name := ''c2''\<rparr>), PtrClaim exClaim])\<rparr>"
                2 exVolume "''c1''",
             THEN conjunct1, rule_format, of 2 "[exClaim\<lparr>pvc_Name := ''c2''\<rparr>, exClaim]"]
    by (simp add: exClaim_def exVolume_def numeral_2_eq_2)
  show "\<exists>n. getClaimFromPVCName \<lparr>namePrefix = [], claimsStore = (\<lambda>k. [])\<rparr> 2 exVolume ''c1'' =
          (replicate n Sleep @
           [Event exVolume EventTypeWarning ''ProvisionStorage'' (notFoundMessage exVolume ''c1''),
            LogInfo ''No Claims found after waiting for %d seconds'' [I 2]],
           Inl (NoClaimsFound 2))"
    using getClaimFromPVCName_polls_while_empty
            [of "\<lparr>namePrefix = [], claimsStore = (\<lambda>k. [])\<rparr>" 2 exVolume "''c1''",
             THEN conjunct2]
    by simp
qed

text \<open>
  C2, as stated, fails. The cache holds the claim \<open>c1\<close> of another namespace, so no
  entry matches; the function returns no claim and no error.
\<close>

theorem getClaimFromPVCName_nil_error_counterexample:
  "getClaimFromPVCName
     \<lparr>namePrefix = [],
      claimsStore = constStore [PtrClaim (exClaim\<lparr>pvc_Namespace := ''other''\<rparr>)]\<rparr>
     60 exVolume ''c1'' =
     ([LogError ''clone of a pvc(%s) for namespace(%s) was requested but we couldn't find it''
         [S ''c1'', S ''ns''],
       Event exVolume EventTypeWarning ''ProvisionStorage'' (notFoundMessage exVolume ''c1'')],
      Inr None)"
  by (simp add: getClaimFromPVCName_def waitForClaims.simps constStore_def exClaim_def
        exVolume_def)

lemma getClaimFromPVCName_classification:
  "(case snd (getClaimFromPVCName p maxWaitForClaims pv claimName) of
      Inr (Some c) \<Rightarrow>
        pvc_Name c = claimName \<and> pvc_Namespace c = pv_Namespace pv \<and> pvc_Phase c = ClaimBound
        \<and> events (fst (getClaimFromPVCName p maxWaitForClaims pv claimName)) = []
    | Inr None \<Rightarrow>
        events (fst (getClaimFromPVCName p maxWaitForClaims pv claimName)) =
          [Event pv EventTypeWarning ''ProvisionStorage'' (notFoundMessage pv claimName)]
    | Inl (NoClaimsFound w) \<Rightarrow>
        w = maxWaitForClaims
        \<and> events (fst (getClaimFromPVCName p maxWaitForClaims pv claimName)) =
          [Event pv EventTypeWarning ''ProvisionStorage'' (notFoundMessage pv claimName)]
    | Inl (UnexpectedType ty v) \<Rightarrow>
        events (fst (getClaimFromPVCName p maxWaitForClaims pv claimName)) = []
    | Inl NilMapAssignment \<Rightarrow> False)
   \<and> ((\<forall>k. claimsStore p k = [])
        \<longrightarrow> snd (getClaimFromPVCName p maxWaitForClaims pv claimName)
              = Inl (NoClaimsFound maxWaitForClaims))
   \<and> (\<forall>cs. claimsStore p 0 \<noteq> [] \<and> claimsStore p 1 = map PtrClaim cs
          \<and> (\<forall>c\<in>set cs. \<not> (pvc_Name c = claimName \<and> pvc_Namespace c = pv_Namespace pv
                               \<and> pvc_Phase c = ClaimBound))
        \<longrightarrow> snd (getClaimFromPVCName p maxWaitForClaims pv claimName) = Inr None)"
proof (intro conjI allI impI)
  obtain n where w: "(\<exists>k'. waitForClaims p maxWaitForClaims pv claimName 0 0 = (replicate n Sleep, Inr k'))
     \<or> waitForClaims p maxWaitForClaims pv claimName 0 0 =
         (replicate n Sleep @
            [Event pv EventTypeWarning ''ProvisionStorage'' (notFoundMessage pv claimName),
             LogInfo ''No Claims found after waiting for %d seconds'' [I maxWaitForClaims]],
          Inl (NoClaimsFound maxWaitForClaims))"
    using waitForClaims_cases by blast
  show "(case snd (getClaimFromPVCName p maxWaitForClaims pv claimName) of
      Inr (Some c) \<Rightarrow>
        pvc_Name c = claimName \<and> pvc_Namespace c = pv_Namespace pv \<and> pvc_Phase c = ClaimBound
        \<and> events (fst (getClaimFromPVCName p maxWaitForClaims pv claimName)) = []
    | Inr None \<Rightarrow>
        events (fst (getClaimFromPVCName p maxWaitForClaims pv claimName)) =
          [Event pv EventTypeWarning ''ProvisionStorage'' (notFoundMessage pv claimName)]
    | Inl (NoClaimsFound w) \<Rightarrow>
        w = maxWaitForClaims
        \<and> events (fst (getClaimFromPVCName p maxWaitForClaims pv claimName)) =
          [Event pv EventTypeWarning ''ProvisionStorage'' (notFoundMessage pv claimName)]
    | Inl (UnexpectedType ty v) \<Rightarrow>
        events (fst (getClaimFromPVCName p maxWaitForClaims pv claimName)) = []
    | Inl NilMapAssignment \<Rightarrow> False)"
  proof -
    from w show ?thesis
    proof (elim disjE exE)
      fix k'
      assume e: "waitForClaims p maxWaitForClaims pv claimName 0 0 = (replicate n Sleep, Inr k')"
      note g = getClaimFromPVCName_scan[OF e]
      from scanClaims_cases[of pv claimName "claimsStore p k'"] show ?thesis
      proof (elim disjE exE conjE)
        fix c
        assume "scanClaims pv claimName (claimsStore p k') = ([], Inr (Some c))"
          and "pvc_Name c = claimName" "pvc_Namespace c = pv_Namespace pv"
          "pvc_Phase c = ClaimBound"
        then show ?thesis by (simp add: g events_replicate_Sleep_only)
      next
        assume "scanClaims pv claimName (claimsStore p k') =
          ([LogError ''clone of a pvc(%s) for namespace(%s) was requested but we couldn't find it''
            [S claimName, S (pv_Namespace pv)],
          Event pv EventTypeWarning ''ProvisionStorage'' (notFoundMessage pv claimName)],
         Inr None)"
        then show ?thesis by (simp add: g events_replicate_Sleep)
      next
        fix ty v
        assume "scanClaims pv claimName (claimsStore p k') = ([], Inl (UnexpectedType ty v))"
        then show ?thesis by (simp add: g events_replicate_Sleep_only)
      qed
    next
      assume "waitForClaims p maxWaitForClaims pv claimName 0 0 =
         (replicate n Sleep @
            [Event pv EventTypeWarning ''ProvisionStorage'' (notFoundMessage pv claimName),
             LogInfo ''No Claims found after waiting for %d seconds'' [I maxWaitForClaims]],
          Inl (NoClaimsFound maxWaitForClaims))"
      then show ?thesis
        by (simp add: getClaimFromPVCName_def events_replicate_Sleep)
    qed
  qed
next
  assume "\<forall>k. claimsStore p k = []"
  from waitForClaims_always_empty[OF this, of maxWaitForClaims pv claimName 0 0]
  show "snd (getClaimFromPVCName p maxWaitForClaims pv claimName)
              = Inl (NoClaimsFound maxWaitForClaims)"
    by (auto simp: getClaimFromPVCName_def)
next
  fix cs
  assume a: "claimsStore p 0 \<noteq> [] \<and> claimsStore p 1 = map PtrClaim cs
          \<and> (\<forall>c\<in>set cs. \<not> (pvc_Name c = claimName \<and> pvc_Namespace c = pv_Namespace pv
                               \<and> pvc_Phase c = ClaimBound))"
  then have "find (\<lambda>c. pvc_Name c = claimName \<and> pvc_Namespace c = pv_Namespace pv
                             \<and> pvc_Phase c = ClaimBound) cs = None"
    by (auto simp: find_None_iff)
  then show "snd (getClaimFromPVCName p maxWaitForClaims pv claimName) = Inr None"
    using a by (simp add: getClaimFromPVCName_def waitForClaims_nonempty scanClaims_PtrClaims)
qed

lemma waitForClaims_timeout_empty:
  "snd (waitForClaims p m pv cn i k) = Inl e \<Longrightarrow>
   claimsStore p k = [] \<and> (\<forall>j. i + int j \<le> m \<longrightarrow> claimsStore p (k + j) = [])"
proof (induction p m pv cn i k rule: waitForClaims.induct)
  case (1 p m pv cn i k)
  have empty: "claimsStore p k = []"
  proof (rule ccontr)
    assume "claimsStore p k \<noteq> []"
    then have "waitForClaims p m pv cn i k = ([], Inr (Suc k))" by (rule waitForClaims_nonempty)
    with 1(2) show False by simp
  qed
  show ?case
  proof (cases "i > m")
    case True
    with empty show ?thesis by auto
  next
    case False
    with empty 1(2) have "snd (waitForClaims p m pv cn (i + 1) (Suc k)) = Inl e"
      by (simp add: waitForClaims.simps[of p m pv cn i k])
    with 1(1) empty False
    have ih: "claimsStore p (Suc k) = []"
             "\<forall>j. i + 1 + int j \<le> m \<longrightarrow> claimsStore p (Suc k + j) = []"
      by auto
    have "claimsStore p (k + j) = []" if "i + int j \<le> m" for j
    proof (cases j)
      case 0
      with empty show ?thesis by simp
    next
      case (Suc j')
      with that have "i + 1 + int j' \<le> m" by simp
      with ih(2) Suc show ?thesis by simp
    qed
    with empty show ?thesis by blast
  qed
qed

lemma scanClaims_skip:
  "\<forall>y\<in>set pre. \<exists>c. getPersistentVolumeClaim y = Inr c
       \<and> \<not> (pvc_Name c = cn \<and> pvc_Namespace c = pv_Namespace pv \<and> pvc_Phase c = ClaimBound)
   \<Longrightarrow> scanClaims pv cn (pre @ rest) = scanClaims pv cn rest"
proof (induction pre)
  case Nil
  then show ?case by simp
next
  case (Cons y pre)
  then obtain c where "getPersistentVolumeClaim y = Inr c"
    "\<not> (pvc_Name c = cn \<and> pvc_Namespace c = pv_Namespace pv \<and> pvc_Phase c = ClaimBound)"
    by auto
  moreover have "scanClaims pv cn (pre @ rest) = scanClaims pv cn rest"
    using Cons by simp
  ultimately show ?case by auto
qed

lemma scanClaims_no_match:
  "\<forall>y\<in>set objs. \<exists>c. getPersistentVolumeClaim y = Inr c
       \<and> \<not> (pvc_Name c = cn \<and> pvc_Namespace c = pv_Namespace pv \<and> pvc_Phase c = ClaimBound)
   \<Longrightarrow> scanClaims pv cn objs = scanClaims pv cn []"
  using scanClaims_skip[of objs cn pv "[]"] by simp

lemma getClaimFromPVCName_first_nonempty:
  assumes "\<forall>j<n. claimsStore p j = []" "claimsStore p n \<noteq> []" "n = 0 \<or> int n \<le> m"
  shows "getClaimFromPVCName p m pv cn =
           (replicate n Sleep @ fst (scanClaims pv cn (claimsStore p (Suc n))),
            snd (scanClaims pv cn (claimsStore p (Suc n))))"
proof -
  have "waitForClaims p m pv cn 0 0 = (replicate n Sleep, Inr (Suc (0 + n)))"
    using assms by (intro waitForClaims_empty_prefix) auto
  then show ?thesis using getClaimFromPVCName_scan by simp
qed

text \<open>
  C2, amended. A claim that resolution returns always matches the requested name,
  namespace and phase Bound, and then no event is emitted. When no matching claim is
  found and the entries scanned are claims, exactly one warning event is attached to
  the target volume. The result is then the not-found error if the cache is empty at
  every poll, and a not-found error is returned only when the cache was empty at every
  poll within the wait bound; the result is no claim together with no error if the
  cache, found non-empty within the bound, holds only claims that do not match. The
  scan stops at the first entry that matches or is not a claim: a match is returned,
  an entry that is not a claim ends resolution with the decoding error and no event.
\<close>

theorem getClaimFromPVCName_outcomes:
  "(case snd (getClaimFromPVCName p maxWaitForClaims pv claimName) of
      Inr (Some c) \<Rightarrow>
        pvc_Name c = claimName \<and> pvc_Namespace c = pv_Namespace pv \<and> pvc_Phase c = ClaimBound
        \<and> events (fst (getClaimFromPVCName p maxWaitForClaims pv claimName)) = []
    | Inr None \<Rightarrow>
        events (fst (getClaimFromPVCName p maxWaitForClaims pv claimName)) =
          [Event pv EventTypeWarning ''ProvisionStorage'' (notFoundMessage pv claimName)]
    | Inl (NoClaimsFound w) \<Rightarrow>
        w = maxWaitForClaims
        \<and> events (fst (getClaimFromPVCName p maxWaitForClaims pv claimName)) =
          [Event pv EventTypeWarning ''ProvisionStorage'' (notFoundMessage pv claimName)]
    | Inl (UnexpectedType ty v) \<Rightarrow>
        events (fst (getClaimFromPVCName p maxWaitForClaims pv claimName)) = []
    | Inl NilMapAssignment \<Rightarrow> False)
   \<and> ((\<forall>k. claimsStore p k = [])
        \<longrightarrow> snd (getClaimFromPVCName p maxWaitForClaims pv claimName)
              = Inl (NoClaimsFound maxWaitForClaims))
   \<and> (\<forall>w. snd (getClaimFromPVCName p maxWaitForClaims pv claimName) = Inl (NoClaimsFound w)
        \<longrightarrow> claimsStore p 0 = []
            \<and> (\<forall>k. int k \<le> maxWaitForClaims \<longrightarrow> claimsStore p k = []))
   \<and> (\<forall>n pre x post.
          (\<forall>j<n. claimsStore p j = []) \<and> claimsStore p n \<noteq> []
          \<and> (n = 0 \<or> int n \<le> maxWaitForClaims)
          \<and> claimsStore p (Suc n) = pre @ x # post
          \<and> (\<forall>y\<in>set pre. \<exists>c. getPersistentVolumeClaim y = Inr c
                 \<and> \<not> (pvc_Name c = claimName \<and> pvc_Namespace c = pv_Namespace pv
                        \<and> pvc_Phase c = ClaimBound))
        \<longrightarrow> (\<forall>ty v. x = Other ty v
                \<longrightarrow> getClaimFromPVCName p maxWaitForClaims pv claimName
                      = (replicate n Sleep, Inl (UnexpectedType ty v)))
            \<and> (\<forall>c. getPersistentVolumeClaim x = Inr c
                     \<and> pvc_Name c = claimName \<and> pvc_Namespace c = pv_Namespace pv
                     \<and> pvc_Phase c = ClaimBound
                \<longrightarrow> getClaimFromPVCName p maxWaitForClaims pv claimName
                      = (replicate n Sleep, Inr (Some c))))
   \<and> (\<forall>n. (\<forall>j<n. claimsStore p j = []) \<and> claimsStore p n \<noteq> []
          \<and> (n = 0 \<or> int n \<le> maxWaitForClaims)
          \<and> (\<forall>y\<in>set (claimsStore p (Suc n)). \<exists>c. getPersistentVolumeClaim y = Inr c
                 \<and> \<not> (pvc_Name c = claimName \<and> pvc_Namespace c = pv_Namespace pv
                        \<and> pvc_Phase c = ClaimBound))
        \<longrightarrow> getClaimFromPVCName p maxWaitForClaims pv claimName
              = (replicate n Sleep @
                 [LogError ''clone of a pvc(%s) for namespace(%s) was requested but we couldn't find it''
                    [S claimName, S (pv_Namespace pv)],
                  Event pv EventTypeWarning ''ProvisionStorage'' (notFoundMessage pv claimName)],
                 Inr None))"
  (is "?A \<and> ?B \<and> ?C \<and> ?D \<and> ?E")
proof -
  have A: ?A using getClaimFromPVCName_classification[of p maxWaitForClaims pv claimName] by blast
  have B: ?B using getClaimFromPVCName_classification[of p maxWaitForClaims pv claimName] by blast
  have C: ?C
  proof (intro allI impI)
    fix w
    assume r: "snd (getClaimFromPVCName p maxWaitForClaims pv claimName) = Inl (NoClaimsFound w)"
    obtain es res where ws: "waitForClaims p maxWaitForClaims pv claimName 0 0 = (es, res)"
      by (cases "waitForClaims p maxWaitForClaims pv claimName 0 0")
    have "\<exists>e. res = Inl e"
    proof (cases res)
      case (Inl e)
      then show ?thesis by simp
    next
      case (Inr k)
      with ws have g: "getClaimFromPVCName p maxWaitForClaims pv claimName =
        (es @ fst (scanClaims pv claimName (claimsStore p k)),
         snd (scanClaims pv claimName (claimsStore p k)))"
        by (simp add: getClaimFromPVCName_scan)
      from scanClaims_cases[of pv claimName "claimsStore p k"] g r show ?thesis
        by auto
    qed
    then obtain e where "snd (waitForClaims p maxWaitForClaims pv claimName 0 0) = Inl e"
      using ws by auto
    from waitForClaims_timeout_empty[OF this]
    show "claimsStore p 0 = [] \<and> (\<forall>k. int k \<le> maxWaitForClaims \<longrightarrow> claimsStore p k = [])"
      by simp
  qed
  have D: ?D
  proof (intro allI impI conjI)
    fix n pre x post ty v
    assume a: "(\<forall>j<n. claimsStore p j = []) \<and> claimsStore p n \<noteq> []
          \<and> (n = 0 \<or> int n \<le> maxWaitForClaims)
          \<and> claimsStore p (Suc n) = pre @ x # post
          \<and> (\<forall>y\<in>set pre. \<exists>c. getPersistentVolumeClaim y = Inr c
                 \<and> \<not> (pvc_Name c = claimName \<and> pvc_Namespace c = pv_Namespace pv
                        \<and> pvc_Phase c = ClaimBound))"
      and x: "x = Other ty v"
    from a have g: "getClaimFromPVCName p maxWaitForClaims pv claimName =
           (replicate n Sleep @ fst (scanClaims pv claimName (claimsStore p (Suc n))),
            snd (scanClaims pv claimName (claimsStore p (Suc n))))"
      by (intro getClaimFromPVCName_first_nonempty) auto
    from a have "scanClaims pv claimName (claimsStore p (Suc n)) = scanClaims pv claimName (x # post)"
      using scanClaims_skip[of pre claimName pv "x # post"] by simp
    with x g show "getClaimFromPVCName p maxWaitForClaims pv claimName
                      = (replicate n Sleep, Inl (UnexpectedType ty v))"
      by simp
  next
    fix n pre x post c
    assume a: "(\<forall>j<n. claimsStore p j = []) \<and> claimsStore p n \<noteq> []
          \<and> (n = 0 \<or> int n \<le> maxWaitForClaims)
          \<and> claimsStore p (Suc n) = pre @ x # post
          \<and> (\<forall>y\<in>set pre. \<exists>c. getPersistentVolumeClaim y = Inr c
                 \<and> \<not> (pvc_Name c = claimName \<and> pvc_Namespace c = pv_Namespace pv
                        \<and> pvc_Phase c = ClaimBound))"
      and x: "getPersistentVolumeClaim x = Inr c
                     \<and> pvc_Name c = claimName \<and> pvc_Namespace c = pv_Namespace pv
                     \<and> pvc_Phase c = ClaimBound"
    from a have g: "getClaimFromPVCName p maxWaitForClaims pv claimName =
           (replicate n Sleep @ fst (scanClaims pv claimName (claimsStore p (Suc n))),
            snd (scanClaims pv claimName (claimsStore p (Suc n))))"
      by (intro getClaimFromPVCName_first_nonempty) auto
    from a have "scanClaims pv claimName (claimsStore p (Suc n)) = scanClaims pv claimName (x # post)"
      using scanClaims_skip[of pre claimName pv "x # post"] by simp
    with x g show "getClaimFromPVCName p maxWaitForClaims pv claimName
                      = (replicate n Sleep, Inr (Some c))"
      by simp
  qed
  have E: ?E
  proof (intro allI impI)
    fix n
    assume a: "(\<forall>j<n. claimsStore p j = []) \<and> claimsStore p n \<noteq> []
          \<and> (n = 0 \<or> int n \<le> maxWaitForClaims)
          \<and> (\<forall>y\<in>set (claimsStore p (Suc n)). \<exists>c. getPersistentVolumeClaim y = Inr c
                 \<and> \<not> (pvc_Name c = claimName \<and> pvc_Namespace c = pv_Namespace pv
                        \<and> pvc_Phase c = ClaimBound))"
    then have g: "getClaimFromPVCName p maxWaitForClaims pv claimName =
           (replicate n Sleep @ fst (scanClaims pv claimName (claimsStore p (Suc n))),
            snd (scanClaims pv claimName (claimsStore p (Suc n))))"
      by (intro getClaimFromPVCName_first_nonempty) auto
    from a have "scanClaims pv claimName (claimsStore p (Suc n)) = scanClaims pv claimName []"
      by (intro scanClaims_no_match) auto
    with g show "getClaimFromPVCName p maxWaitForClaims pv claimName
              = (replicate n Sleep @
                 [LogError ''clone of a pvc(%s) for namespace(%s) was requested but we couldn't find it''
                    [S claimName, S (pv_Namespace pv)],
                  Event pv EventTypeWarning ''ProvisionStorage'' (notFoundMessage pv claimName)],
                 Inr None)"
      by simp
  qed
  from A B C D E show ?thesis by blast
qed

theorem getClaimFromPVCName_outcomes_witness:
  "snd (getClaimFromPVCName \<lparr>namePrefix = [], claimsStore = constStore []\<rparr> 2 exVolume ''c1'')
     = Inl (NoClaimsFound 2)
   \<and> events (fst (getClaimFromPVCName \<lparr>namePrefix = [], claimsStore = constStore []\<rparr>
                     2 exVolume ''c1''))
     = [Event exVolume EventTypeWarning ''ProvisionStorage'' (notFoundMessage exVolume ''c1'')]
   \<and> constStore [] 0 = ([] :: obj list)
   \<and> getClaimFromPVCName
       \<lparr>namePrefix = [],
        claimsStore = constStore [PtrClaim (exClaim\<lparr>pvc_Phase := ClaimPending\<rparr>)]\<rparr>
       2 exVolume ''c1'' =
       ([LogError ''clone of a pvc(%s) for namespace(%s) was requested but we couldn't find it''
           [S ''c1'', S (pv_Namespace exVolume)],
         Event exVolume EventTypeWarning ''ProvisionStorage'' (notFoundMessage exVolume ''c1'')],
        Inr None)
   \<and> getClaimFromPVCName
       \<lparr>namePrefix = [],
        claimsStore = constStore [ValClaim (exClaim\<lparr>pvc_Name := ''c2''\<rparr>),
                                  Other ''int'' ''7'', PtrClaim exClaim]\<rparr>
       2 exVolume ''c1'' = ([], Inl (UnexpectedType ''int'' ''7''))
   \<and> getClaimFromPVCName
       \<lparr>namePrefix = [],
        claimsStore = constStore [ValClaim (exClaim\<lparr>pvc_Name := ''c2''\<rparr>),
                                  PtrClaim exClaim, Other ''int'' ''7'']\<rparr>
       2 exVolume ''c1'' = ([], Inr (Some exClaim))"
proof -
  let ?empty = "\<lparr>namePrefix = [], claimsStore = constStore []\<rparr>"
  let ?pending = "\<lparr>namePrefix = [],
        claimsStore = constStore [PtrClaim (exClaim\<lparr>pvc_Phase := ClaimPending\<rparr>)]\<rparr>"
  let ?broken = "\<lparr>namePrefix = [],
        claimsStore = constStore [ValClaim (exClaim\<lparr>pvc_Name := ''c2''\<rparr>),
                                  Other ''int'' ''7'', PtrClaim exClaim]\<rparr>"
  let ?found = "\<lparr>namePrefix = [],
        claimsStore = constStore [ValClaim (exClaim\<lparr>pvc_Name := ''c2''\<rparr>),
                                  PtrClaim exClaim, Other ''int'' ''7'']\<rparr>"
  note empty_thm = getClaimFromPVCName_outcomes[of ?empty 2 exVolume "''c1''"]
  have timeout: "snd (getClaimFromPVCName ?empty 2 exVolume ''c1'') = Inl (NoClaimsFound 2)"
    using empty_thm[THEN conjunct2, THEN conjunct1] by simp
  have one_event: "events (fst (getClaimFromPVCName ?empty 2 exVolume ''c1''))
     = [Event exVolume EventTypeWarning ''ProvisionStorage'' (notFoundMessage exVolume ''c1'')]"
    using empty_thm[THEN conjunct1] by (simp add: timeout)
  have was_empty: "constStore [] 0 = ([] :: obj list)"
    using empty_thm[THEN conjunct2, THEN conjunct2, THEN conjunct1, rule_format, OF timeout]
    by simp
  have h_pending: "(\<forall>j<0. claimsStore ?pending j = []) \<and> claimsStore ?pending 0 \<noteq> []
          \<and> (0 = (0::nat) \<or> int 0 \<le> 2)
          \<and> (\<forall>y\<in>set (claimsStore ?pending (Suc 0)). \<exists>c. getPersistentVolumeClaim y = Inr c
                 \<and> \<not> (pvc_Name c = ''c1'' \<and> pvc_Namespace c = pv_Namespace exVolume
                        \<and> pvc_Phase c = ClaimBound))"
    by (simp add: exClaim_def ClaimPending_def ClaimBound_def)
  have no_match: "getClaimFromPVCName ?pending 2 exVolume ''c1'' =
       ([LogError ''clone of a pvc(%s) for namespace(%s) was requested but we couldn't find it''
           [S ''c1'', S (pv_Namespace exVolume)],
         Event exVolume EventTypeWarning ''ProvisionStorage'' (notFoundMessage exVolume ''c1'')],
        Inr None)"
    using getClaimFromPVCName_outcomes[of ?pending 2 exVolume "''c1''",
            THEN conjunct2, THEN conjunct2, THEN conjunct2, THEN conjunct2, rule_format,
            OF h_pending]
    by simp
  have h_broken: "(\<forall>j<0. claimsStore ?broken j = []) \<and> claimsStore ?broken 0 \<noteq> []
          \<and> (0 = (0::nat) \<or> int 0 \<le> 2)
          \<and> claimsStore ?broken (Suc 0)
              = [ValClaim (exClaim\<lparr>pvc_Name := ''c2''\<rparr>)] @ Other ''int'' ''7'' # [PtrClaim exClaim]
          \<and> (\<forall>y\<in>set [ValClaim (exClaim\<lparr>pvc_Name := ''c2''\<rparr>)].
                \<exists>c. getPersistentVolumeClaim y = Inr c
                 \<and> \<not> (pvc_Name c = ''c1'' \<and> pvc_Namespace c = pv_Namespace exVolume
                        \<and> pvc_Phase c = ClaimBound))"
    by (simp add: exClaim_def)
  have broken: "getClaimFromPVCName ?broken 2 exVolume ''c1''
                  = ([], Inl (UnexpectedType ''int'' ''7''))"
    using getClaimFromPVCName_outcomes[of ?broken 2 exVolume "''c1''",
            THEN conjunct2, THEN conjunct2, THEN conjunct2, THEN conjunct1, rule_format,
            OF h_broken, THEN conjunct1, rule_format, of "''int''" "''7''"]
    by simp
  have h_found: "(\<forall>j<0. claimsStore ?found j = []) \<and> claimsStore ?found 0 \<noteq> []
          \<and> (0 = (0::nat) \<or> int 0 \<le> 2)
          \<and> claimsStore ?found (Suc 0)
              = [ValClaim (exClaim\<lparr>pvc_Name := ''c2''\<rparr>)] @ PtrClaim exClaim # [Other ''int'' ''7'']
          \<and> (\<forall>y\<in>set [ValClaim (exClaim\<lparr>pvc_Name := ''c2''\<rparr>)].
                \<exists>c. getPersistentVolumeClaim y = Inr c
                 \<and> \<not> (pvc_Name c = ''c1'' \<and> pvc_Namespace c = pv_Namespace exVolume
                        \<and> pvc_Phase c = ClaimBound))"
    by (simp add: exClaim_def)
  have m: "getPersistentVolumeClaim (PtrClaim exClaim) = Inr exClaim
             \<and> pvc_Name exClaim = ''c1'' \<and> pvc_Namespace exClaim = pv_Namespace exVolume
             \<and> pvc_Phase exClaim = ClaimBound"
    by (simp add: exClaim_def exVolume_def)
  have found: "getClaimFromPVCName ?found 2 exVolume ''c1'' = ([], Inr (Some exClaim))"
    using getClaimFromPVCName_outcomes[of ?found 2 exVolume "''c1''",
            THEN conjunct2, THEN conjunct2, THEN conjunct2, THEN conjunct1, rule_format,
            OF h_found, THEN conjunct2, rule_format, OF m]
    by simp
  from timeout one_event was_empty no_match broken found show ?thesis by blast
qed

subsection \<open>Override merge\<close>

lemma rangeAnnotations_skip:
  "\<not> (\<exists>v. anns key = Some v \<and> matchesOverride L pfx ov key) \<Longrightarrow>
   rangeAnnotations L pfx anns ov (key # keys) om = rangeAnnotations L pfx anns ov keys om"
  by (cases "anns key") auto

lemma rangeAnnotations_assign:
  "anns key = Some v \<Longrightarrow> matchesOverride L pfx ov key \<Longrightarrow>
   snd (rangeAnnotations L pfx anns ov (key # keys) (Some m))
     = snd (rangeAnnotations L pfx anns ov keys (Some (m(ov \<mapsto> VString v))))"
  by simp

lemma rangeAnnotations_allocated:
  "\<exists>m'. snd (rangeAnnotations L pfx anns ov ks (Some m)) = Inr (Some m')
     \<and> (\<forall>k. k \<noteq> ov \<longrightarrow> m' k = m k)
     \<and> ((\<forall>key\<in>set ks. \<forall>v. anns key = Some v \<longrightarrow> \<not> matchesOverride L pfx ov key)
          \<longrightarrow> m' ov = m ov)
     \<and> ((\<exists>key\<in>set ks. \<exists>v. anns key = Some v \<and> matchesOverride L pfx ov key)
          \<longrightarrow> (\<exists>key\<in>set ks. \<exists>v. anns key = Some v \<and> matchesOverride L pfx ov key
                  \<and> m' ov = Some (VString v)))"
proof (induction ks arbitrary: m)
  case Nil
  then show ?case by simp
next
  case (Cons key keys)
  show ?case
  proof (cases "\<exists>v. anns key = Some v \<and> matchesOverride L pfx ov key")
    case False
    have step: "rangeAnnotations L pfx anns ov (key # keys) (Some m)
                  = rangeAnnotations L pfx anns ov keys (Some m)"
      using False by (rule rangeAnnotations_skip)
    from Cons.IH[of m] obtain m' where
      m': "snd (rangeAnnotations L pfx anns ov keys (Some m)) = Inr (Some m')"
          "\<forall>k. k \<noteq> ov \<longrightarrow> m' k = m k"
          "(\<forall>key\<in>set keys. \<forall>v. anns key = Some v \<longrightarrow> \<not> matchesOverride L pfx ov key)
             \<longrightarrow> m' ov = m ov"
          "(\<exists>key\<in>set keys. \<exists>v. anns key = Some v \<and> matchesOverride L pfx ov key)
             \<longrightarrow> (\<exists>key\<in>set keys. \<exists>v. anns key = Some v \<and> matchesOverride L pfx ov key
                  \<and> m' ov = Some (VString v))"
      by blast
    have a: "(\<forall>key'\<in>set (key # keys). \<forall>v. anns key' = Some v \<longrightarrow> \<not> matchesOverride L pfx ov key')
             \<longrightarrow> m' ov = m ov"
      using m'(3) by simp
    have b: "(\<exists>key'\<in>set (key # keys). \<exists>v. anns key' = Some v \<and> matchesOverride L pfx ov key')
             \<longrightarrow> (\<exists>key'\<in>set (key # keys). \<exists>v. anns key' = Some v \<and> matchesOverride L pfx ov key'
                  \<and> m' ov = Some (VString v))"
      using m'(4) False by (metis list.set_intros(2) set_ConsD)
    show ?thesis
      unfolding step using m'(1,2) a b by blast
  next
    case True
    then obtain v where v: "anns key = Some v" "matchesOverride L pfx ov key" by blast
    have step: "snd (rangeAnnotations L pfx anns ov (key # keys) (Some m))
                  = snd (rangeAnnotations L pfx anns ov keys (Some (m(ov \<mapsto> VString v))))"
      using v by (rule rangeAnnotations_assign)
    from Cons.IH[of "m(ov \<mapsto> VString v)"] obtain m' where
      m': "snd (rangeAnnotations L pfx anns ov keys (Some (m(ov \<mapsto> VString v)))) = Inr (Some m')"
          "\<forall>k. k \<noteq> ov \<longrightarrow> m' k = (m(ov \<mapsto> VString v)) k"
          "(\<forall>key\<in>set keys. \<forall>v. anns key = Some v \<longrightarrow> \<not> matchesOverride L pfx ov key)
             \<longrightarrow> m' ov = (m(ov \<mapsto> VString v)) ov"
          "(\<exists>key\<in>set keys. \<exists>v. anns key = Some v \<and> matchesOverride L pfx ov key)
             \<longrightarrow> (\<exists>key\<in>set keys. \<exists>v. anns key = Some v \<and> matchesOverride L pfx ov key
                  \<and> m' ov = Some (VString v))"
      by blast
    have frame: "\<forall>k. k \<noteq> ov \<longrightarrow> m' k = m k"
      using m'(2) by simp
    have a: "(\<forall>key'\<in>set (key # keys). \<forall>v. anns key' = Some v \<longrightarrow> \<not> matchesOverride L pfx ov key')
             \<longrightarrow> m' ov = m ov"
      using v by auto
    have b: "\<exists>key'\<in>set (key # keys). \<exists>v. anns key' = Some v \<and> matchesOverride L pfx ov key'
                \<and> m' ov = Some (VString v)"
    proof (cases "\<exists>key\<in>set keys. \<exists>v. anns key = Some v \<and> matchesOverride L pfx ov key")
      case True
      with m'(4) obtain key' v' where "key' \<in> set keys" "anns key' = Some v'"
        "matchesOverride L pfx ov key'" "m' ov = Some (VString v')" by blast
      then show ?thesis by (metis list.set_intros(2))
    next
      case False
      with m'(3) have "m' ov = (m(ov \<mapsto> VString v)) ov" by blast
      then have "m' ov = Some (VString v)" by simp
      with v show ?thesis by (metis list.set_intros(1))
    qed
    show ?thesis
      unfolding step using m'(1) frame a b by blast
  qed
qed

lemma rangeOverrides_step:
  "snd (rangeAnnotations L pfx anns ov (sched n) om) = Inr om' \<Longrightarrow>
   snd (rangeOverrides L sched pfx anns n (ov # rest) om)
     = snd (rangeOverrides L sched pfx anns (Suc n) rest om')"
  by (auto split: prod.splits sum.splits)

lemma rangeOverrides_allocated:
  assumes dom: "\<forall>n. set (sched n) = dom anns"
  shows "\<exists>m'. snd (rangeOverrides L sched pfx anns n ovs (Some m)) = Inr (Some m')
     \<and> (\<forall>k. (k \<in> set ovs \<and> (\<exists>key v. anns key = Some v \<and> matchesOverride L pfx k key)
               \<longrightarrow> (\<exists>key v. anns key = Some v \<and> matchesOverride L pfx k key
                      \<and> m' k = Some (VString v)))
           \<and> (\<not> (k \<in> set ovs \<and> (\<exists>key v. anns key = Some v \<and> matchesOverride L pfx k key))
               \<longrightarrow> m' k = m k))"
proof (induction ovs arbitrary: n m)
  case Nil
  then show ?case by simp
next
  case (Cons ov rest)
  from rangeAnnotations_allocated[of L pfx anns ov "sched n" m] obtain m1 where
    m1: "snd (rangeAnnotations L pfx anns ov (sched n) (Some m)) = Inr (Some m1)"
        "\<forall>k. k \<noteq> ov \<longrightarrow> m1 k = m k"
        "(\<forall>key\<in>set (sched n). \<forall>v. anns key = Some v \<longrightarrow> \<not> matchesOverride L pfx ov key)
          \<longrightarrow> m1 ov = m ov"
        "(\<exists>key\<in>set (sched n). \<exists>v. anns key = Some v \<and> matchesOverride L pfx ov key)
          \<longrightarrow> (\<exists>key\<in>set (sched n). \<exists>v. anns key = Some v \<and> matchesOverride L pfx ov key
                  \<and> m1 ov = Some (VString v))"
    by blast
  have in_sched: "key \<in> set (sched n)" if "anns key = Some v" for key v
    using dom that by (metis domI)
  have m1_none: "m1 ov = m ov"
    if "\<not> (\<exists>key v. anns key = Some v \<and> matchesOverride L pfx ov key)"
    using m1(3) that by blast
  have m1_some: "\<exists>key v. anns key = Some v \<and> matchesOverride L pfx ov key \<and> m1 ov = Some (VString v)"
    if "\<exists>key v. anns key = Some v \<and> matchesOverride L pfx ov key"
  proof -
    from that in_sched
    have "\<exists>key\<in>set (sched n). \<exists>v. anns key = Some v \<and> matchesOverride L pfx ov key"
      by blast
    with m1(4) show ?thesis by blast
  qed
  from Cons.IH[of "Suc n" m1] obtain m' where
    m': "snd (rangeOverrides L sched pfx anns (Suc n) rest (Some m1)) = Inr (Some m')"
        "\<forall>k. (k \<in> set rest \<and> (\<exists>key v. anns key = Some v \<and> matchesOverride L pfx k key)
               \<longrightarrow> (\<exists>key v. anns key = Some v \<and> matchesOverride L pfx k key
                      \<and> m' k = Some (VString v)))
           \<and> (\<not> (k \<in> set rest \<and> (\<exists>key v. anns key = Some v \<and> matchesOverride L pfx k key))
               \<longrightarrow> m' k = m1 k)"
    by blast
  have step: "snd (rangeOverrides L sched pfx anns n (ov # rest) (Some m)) = Inr (Some m')"
    using rangeOverrides_step[of L pfx anns ov sched n "Some m" "Some m1" rest] m1(1) m'(1)
    by simp
  have hit: "\<exists>key v. anns key = Some v \<and> matchesOverride L pfx k key \<and> m' k = Some (VString v)"
    if k: "k \<in> set (ov # rest)" and ex: "\<exists>key v. anns key = Some v \<and> matchesOverride L pfx k key"
    for k
  proof (cases "k \<in> set rest")
    case True
    with m'(2) ex show ?thesis by blast
  next
    case False
    with k have "k = ov" by simp
    moreover from False m'(2) have "m' k = m1 k" by blast
    ultimately show ?thesis using m1_some ex by metis
  qed
  have miss: "m' k = m k"
    if "\<not> (k \<in> set (ov # rest) \<and> (\<exists>key v. anns key = Some v \<and> matchesOverride L pfx k key))"
    for k
  proof -
    from that have "\<not> (k \<in> set rest \<and> (\<exists>key v. anns key = Some v \<and> matchesOverride L pfx k key))"
      by (meson list.set_intros(2))
    with m'(2) have eq: "m' k = m1 k" by blast
    show ?thesis
    proof (cases "k = ov")
      case True
      with that have "\<not> (\<exists>key v. anns key = Some v \<and> matchesOverride L pfx ov key)" by simp
      from m1_none[OF this] eq True show ?thesis by simp
    next
      case False
      with m1(2) eq show ?thesis by simp
    qed
  qed
  from step hit miss show ?case by blast
qed

text \<open>A match found while the option map is nil ends in the panic of the assignment.\<close>

lemma getClaimOverrideOptions_nil_map:
  "snd (getClaimOverrideOptions asciiLower (\<lambda>n. [''p.a''])
            \<lparr>namePrefix = ''p.'', claimsStore = (\<lambda>k. [])\<rparr>
            (exClaim\<lparr>pvc_Annotations := [''p.a'' \<mapsto> ''2'']\<rparr>) [''a''] None)
       = Inl NilMapAssignment"
  by (simp add: getClaimOverrideOptions_def asciiLower_def exClaim_def)

text \<open>
  C8. Override merge, for every allocated base option mapping, list of override keys
  and claim, whatever order the runtime visits the annotations in. An annotation key
  matches an override key when the lowercased annotation key starts with the configured
  name prefix followed by the lowercased override key. For an override key with a
  matching annotation the result holds the value of a matching annotation in place of
  any value the base mapping had; every other key of the result is as in the base
  mapping. Base \<open>{a: "1"}\<close>, prefix \<open>"p."\<close>, override \<open>"a"\<close> and annotation
  \<open>{"p.a": "2"}\<close> give \<open>{a: "2"}\<close>.
\<close>

theorem getClaimOverrideOptions_merge:
  "((\<forall>n. set (sched n) = dom (pvc_Annotations claim)) \<longrightarrow>
    (\<exists>result.
       snd (getClaimOverrideOptions ToLower sched p claim overrides (Some optionsMap))
         = Inr (Some result)
       \<and> (\<forall>k. (k \<in> set overrides
                 \<and> (\<exists>key annotation. pvc_Annotations claim key = Some annotation
                       \<and> prefix (namePrefix p @ ToLower k) (ToLower key))
               \<longrightarrow> (\<exists>key annotation. pvc_Annotations claim key = Some annotation
                       \<and> prefix (namePrefix p @ ToLower k) (ToLower key)
                       \<and> result k = Some (VString annotation)))
             \<and> (\<not> (k \<in> set overrides
                    \<and> (\<exists>key annotation. pvc_Annotations claim key = Some annotation
                          \<and> prefix (namePrefix p @ ToLower k) (ToLower key)))
               \<longrightarrow> result k = optionsMap k))))
   \<and> snd (getClaimOverrideOptions asciiLower (\<lambda>n. [''p.a''])
            \<lparr>namePrefix = ''p.'', claimsStore = (\<lambda>k. [])\<rparr>
            (exClaim\<lparr>pvc_Annotations := [''p.a'' \<mapsto> ''2'']\<rparr>) [''a'']
            (Some [''a'' \<mapsto> VString ''1'']))
       = Inr (Some [''a'' \<mapsto> VString ''2''])"
proof (intro conjI impI)
  assume "\<forall>n. set (sched n) = dom (pvc_Annotations claim)"
  from rangeOverrides_allocated[OF this, of ToLower "namePrefix p" 0 overrides optionsMap]
  show "\<exists>result.
       snd (getClaimOverrideOptions ToLower sched p claim overrides (Some optionsMap))
         = Inr (Some result)
       \<and> (\<forall>k. (k \<in> set overrides
                 \<and> (\<exists>key annotation. pvc_Annotations claim key = Some annotation
                       \<and> prefix (namePrefix p @ ToLower k) (ToLower key))
               \<longrightarrow> (\<exists>key annotation. pvc_Annotations claim key = Some annotation
                       \<and> prefix (namePrefix p @ ToLower k) (ToLower key)
                       \<and> result k = Some (VString annotation)))
             \<and> (\<not> (k \<in> set overrides
                    \<and> (\<exists>key annotation. pvc_Annotations claim key = Some annotation
                          \<and> prefix (namePrefix p @ ToLower k) (ToLower key)))
               \<longrightarrow> result k = optionsMap k))"
    unfolding getClaimOverrideOptions_def Let_def by blast
next
  show "snd (getClaimOverrideOptions asciiLower (\<lambda>n. [''p.a''])
            \<lparr>namePrefix = ''p.'', claimsStore = (\<lambda>k. [])\<rparr>
            (exClaim\<lparr>pvc_Annotations := [''p.a'' \<mapsto> ''2'']\<rparr>) [''a'']
            (Some [''a'' \<mapsto> VString ''1'']))
       = Inr (Some [''a'' \<mapsto> VString ''2''])"
    by (simp add: getClaimOverrideOptions_def asciiLower_def exClaim_def)
qed

theorem getClaimOverrideOptions_merge_witness:
  "(\<forall>n. set ((\<lambda>n. [''P.A'', ''other'']) n)
          = dom (pvc_Annotations (exClaim\<lparr>pvc_Annotations := [''P.A'' \<mapsto> ''2'', ''other'' \<mapsto> ''3'']\<rparr>)))
   \<and> (\<exists>result.
        snd (getClaimOverrideOptions asciiLower (\<lambda>n. [''P.A'', ''other''])
               \<lparr>namePrefix = ''p.'', claimsStore = (\<lambda>k. [])\<rparr>
               (exClaim\<lparr>pvc_Annotations := [''P.A'' \<mapsto> ''2'', ''other'' \<mapsto> ''3'']\<rparr>) [''a'', ''b'']
               (Some [''a'' \<mapsto> VString ''1'', ''b'' \<mapsto> VInt 7]))
          = Inr (Some result)
        \<and> result ''a'' = Some (VString ''2'') \<and> result ''b'' = Some (VInt 7)
        \<and> result ''other'' = None)"
proof -
  let ?claim = "exClaim\<lparr>pvc_Annotations := [''P.A'' \<mapsto> ''2'', ''other'' \<mapsto> ''3'']\<rparr>"
  let ?p = "\<lparr>namePrefix = ''p.'', claimsStore = (\<lambda>k. [])\<rparr>"
  have h: "\<forall>n. set ((\<lambda>n. [''P.A'', ''other'']) n) = dom (pvc_Annotations ?claim)"
    by (auto simp: exClaim_def)
  from getClaimOverrideOptions_merge
         [of "\<lambda>n. [''P.A'', ''other'']" ?claim asciiLower ?p "[''a'', ''b'']"
             "[''a'' \<mapsto> VString ''1'', ''b'' \<mapsto> VInt 7]", THEN conjunct1, THEN mp, OF h]
  obtain result where
    r: "snd (getClaimOverrideOptions asciiLower (\<lambda>n. [''P.A'', ''other'']) ?p ?claim [''a'', ''b'']
               (Some [''a'' \<mapsto> VString ''1'', ''b'' \<mapsto> VInt 7])) = Inr (Some result)"
    and hit: "\<forall>k. k \<in> set [''a'', ''b'']
                 \<and> (\<exists>key annotation. pvc_Annotations ?claim key = Some annotation
                       \<and> prefix (namePrefix ?p @ asciiLower k) (asciiLower key))
               \<longrightarrow> (\<exists>key annotation. pvc_Annotations ?claim key = Some annotation
                       \<and> prefix (namePrefix ?p @ asciiLower k) (asciiLower key)
                       \<and> result k = Some (VString annotation))"
    and miss: "\<forall>k. \<not> (k \<in> set [''a'', ''b'']
                    \<and> (\<exists>key annotation. pvc_Annotations ?claim key = Some annotation
                          \<and> prefix (namePrefix ?p @ asciiLower k) (asciiLower key)))
               \<longrightarrow> result k = [''a'' \<mapsto> VString ''1'', ''b'' \<mapsto> VInt 7] k"
    by blast
  have "''a'' \<in> set [''a'', ''b'']
          \<and> (\<exists>key annotation. pvc_Annotations ?claim key = Some annotation
                \<and> prefix (namePrefix ?p @ asciiLower ''a'') (asciiLower key))"
    by (rule conjI, simp, rule exI[of _ "''P.A''"], rule exI[of _ "''2''"])
       (simp add: exClaim_def asciiLower_def)
  with hit obtain key annotation where
    k: "pvc_Annotations ?claim key = Some annotation"
       "prefix (namePrefix ?p @ asciiLower ''a'') (asciiLower key)"
       "result ''a'' = Some (VString annotation)"
    by blast
  from k(1) have "key = ''P.A'' \<and> annotation = ''2'' \<or> key = ''other''"
    by (simp add: exClaim_def split: if_splits)
  with k(2) have "annotation = ''2''"
    by (auto simp: asciiLower_def)
  with k(3) have a: "result ''a'' = Some (VString ''2'')" by simp
  have b: "result ''b'' = Some (VInt 7)"
    using miss[rule_format, of "''b''"] by (auto simp: exClaim_def asciiLower_def split: if_splits)
  have c: "result ''other'' = None"
    using miss[rule_format, of "''other''"] by simp
  from h r a b c show ?thesis by blast
qed

subsection \<open>Create\<close>

lemma rangeDelete_eq:
  "rangeDelete strip keys options =
     (\<lambda>k. if k \<in> set keys \<and> (k = ''name'' \<or> (strip \<and> prefix ''kubernetes.io'' k))
          then None else options k)"
  by (induction keys arbitrary: options) (auto simp: fun_eq_iff)

lemma rangeDelete_all_keys:
  "set keys = dom options \<Longrightarrow>
   rangeDelete strip keys options =
     (\<lambda>k. if k = ''name'' \<or> (strip \<and> prefix ''kubernetes.io'' k) then None else options k)"
  unfolding rangeDelete_eq by (auto simp: fun_eq_iff)

text \<open>
  C6. \<open>Create\<close> with an empty name fails at once and hands nothing to the transport.
  With a non-empty name it sends one request, whose option map is the caller's map
  without the key \<open>"name"\<close> and, when the client is configured to strip them, without
  the keys that start with \<open>"kubernetes.io"\<close>; all other keys are sent unchanged.
\<close>

theorem Create_strips_options:
  "Create DoJSON Errorf keys dvp [] options = (options, [], Inl NameRequired)
   \<and> (name \<noteq> [] \<and> set keys = dom options \<longrightarrow>
        fst (snd (Create DoJSON Errorf keys dvp name options)) =
          [\<lparr>rq_Action = ''POST'', rq_Path = CreateURI,
            rq_Payload = RequestPayload
              \<lparr>req_Name = name,
               req_Opts = (\<lambda>k. if k = ''name'' \<or> (stripK8sOpts dvp \<and> prefix ''kubernetes.io'' k)
                                then None else options k)\<rparr>\<rparr>])"
  by (auto simp: Create_def Let_def rangeDelete_all_keys split: sum.splits option.splits)

theorem Create_strips_options_witness:
  "fst (snd (Create (replyWith exReply) verbatim [''size'', ''name'', ''kubernetes.io/pvc'']
               exClient ''v1''
               [''kubernetes.io/pvc'' \<mapsto> VString ''c1'', ''name'' \<mapsto> VString ''x'',
                ''size'' \<mapsto> VInt 10])) =
     [\<lparr>rq_Action = ''POST'', rq_Path = CreateURI,
       rq_Payload = RequestPayload \<lparr>req_Name = ''v1'', req_Opts = [''size'' \<mapsto> VInt 10]\<rparr>\<rparr>]"
proof -
  have h: "''v1'' \<noteq> [] \<and> set [''size'', ''name'', ''kubernetes.io/pvc'']
             = dom [''kubernetes.io/pvc'' \<mapsto> VString ''c1'', ''name'' \<mapsto> VString ''x'',
                    ''size'' \<mapsto> VInt 10]"
    by auto
  have m: "(\<lambda>k. if k = ''name'' \<or> (stripK8sOpts exClient \<and> prefix ''kubernetes.io'' k)
             then None
             else [''kubernetes.io/pvc'' \<mapsto> VString ''c1'', ''name'' \<mapsto> VString ''x'',
                   ''size'' \<mapsto> VInt 10] k) = [''size'' \<mapsto> VInt 10]"
    by (auto simp: fun_eq_iff exClient_def)
  from Create_strips_options
         [of "replyWith exReply" verbatim "[''size'', ''name'', ''kubernetes.io/pvc'']" exClient
             "[''kubernetes.io/pvc'' \<mapsto> VString ''c1'', ''name'' \<mapsto> VString ''x'',
               ''size'' \<mapsto> VInt 10]" "''v1''", THEN conjunct2, THEN mp, OF h]
  show ?thesis unfolding m .
qed

text \<open>
  C10, as stated, fails: after a call of \<open>Create\<close> with an empty name the caller's map
  still holds the key \<open>"name"\<close>, since the name check returns before the loop.
\<close>

theorem Create_empty_name_counterexample:
  "fst (Create (replyWith exReply) verbatim [''name''] exClient [] [''name'' \<mapsto> VString ''x''])
     ''name'' = Some (VString ''x'')"
  by (simp add: Create_def)

text \<open>
  C10, amended. \<open>Create\<close> deletes from the map its caller supplied, not from a copy:
  after any call with a non-empty name the caller's map holds neither the key \<open>"name"\<close>
  nor, when stripping is configured, any key that starts with \<open>"kubernetes.io"\<close>, its
  other keys are untouched, and the request sent carries that same map; this is so
  whether the call then succeeds or fails. A call with an empty name leaves the caller's
  map as it was.
\<close>

theorem Create_mutates_caller_map:
  "(name \<noteq> [] \<and> set keys = dom options \<longrightarrow>
      fst (Create DoJSON Errorf keys dvp name options) ''name'' = None
      \<and> (stripK8sOpts dvp \<longrightarrow>
           (\<forall>k. prefix ''kubernetes.io'' k \<longrightarrow>
                fst (Create DoJSON Errorf keys dvp name options) k = None))
      \<and> (\<forall>k. \<not> (k = ''name'' \<or> (stripK8sOpts dvp \<and> prefix ''kubernetes.io'' k)) \<longrightarrow>
             fst (Create DoJSON Errorf keys dvp name options) k = options k)
      \<and> (\<forall>r\<in>set (fst (snd (Create DoJSON Errorf keys dvp name options))).
             \<exists>req. rq_Payload r = RequestPayload req
                   \<and> req_Opts req = fst (Create DoJSON Errorf keys dvp name options)))
   \<and> fst (Create DoJSON Errorf keys dvp [] options) = options"
  by (auto simp: Create_def Let_def rangeDelete_all_keys split: sum.splits option.splits)

theorem Create_mutates_caller_map_witness:
  "fst (Create (failWith (TransportError ''connection refused'')) verbatim
          [''name'', ''kubernetes.io/pvc''] exClient ''v1''
          [''kubernetes.io/pvc'' \<mapsto> VString ''c1'', ''name'' \<mapsto> VString ''x'']) ''name'' = None
   \<and> fst (Create (failWith (TransportError ''connection refused'')) verbatim
          [''name'', ''kubernetes.io/pvc''] exClient ''v1''
          [''kubernetes.io/pvc'' \<mapsto> VString ''c1'', ''name'' \<mapsto> VString ''x''])
        ''kubernetes.io/pvc'' = None
   \<and> snd (snd (Create (failWith (TransportError ''connection refused'')) verbatim
          [''name'', ''kubernetes.io/pvc''] exClient ''v1''
          [''kubernetes.io/pvc'' \<mapsto> VString ''c1'', ''name'' \<mapsto> VString ''x'']))
        = Inl (TransportError ''connection refused'')"
proof -
  have h: "''v1'' \<noteq> [] \<and> set [''name'', ''kubernetes.io/pvc'']
             = dom [''kubernetes.io/pvc'' \<mapsto> VString ''c1'', ''name'' \<mapsto> VString ''x'']"
    by auto
  have s: "stripK8sOpts exClient" "prefix ''kubernetes.io'' ''kubernetes.io/pvc''"
    by (simp_all add: exClient_def)
  from Create_mutates_caller_map
         [of "''v1''" "[''name'', ''kubernetes.io/pvc'']"
             "[''kubernetes.io/pvc'' \<mapsto> VString ''c1'', ''name'' \<mapsto> VString ''x'']"
             "failWith (TransportError ''connection refused'')" verbatim exClient,
          THEN conjunct1, THEN mp, OF h] s
  have "fst (Create (failWith (TransportError ''connection refused'')) verbatim
          [''name'', ''kubernetes.io/pvc''] exClient ''v1''
          [''kubernetes.io/pvc'' \<mapsto> VString ''c1'', ''name'' \<mapsto> VString ''x'']) ''name'' = None
   \<and> fst (Create (failWith (TransportError ''connection refused'')) verbatim
          [''name'', ''kubernetes.io/pvc''] exClient ''v1''
          [''kubernetes.io/pvc'' \<mapsto> VString ''c1'', ''name'' \<mapsto> VString ''x''])
        ''kubernetes.io/pvc'' = None"
    by blast
  moreover have "snd (snd (Create (failWith (TransportError ''connection refused'')) verbatim
          [''name'', ''kubernetes.io/pvc''] exClient ''v1''
          [''kubernetes.io/pvc'' \<mapsto> VString ''c1'', ''name'' \<mapsto> VString ''x'']))
        = Inl (TransportError ''connection refused'')"
    by (simp add: Create_def driverRun_def failWith_def Let_def)
  ultimately show ?thesis by blast
qed

subsection \<open>Plugin discovery\<close>

lemma rangePlugins_find:
  "rangePlugins name plugins =
     (case find (\<lambda>plugin. name = plugin_Name plugin \<or> name @ '':latest'' = plugin_Name plugin)
             plugins of
        None \<Rightarrow> ([], Some (PluginNotFound name))
      | Some plugin \<Rightarrow>
          (''/run/docker/plugins/'' @ plugin_ID plugin @ ''/'' @ plugin_Socket plugin,
           if plugin_Enabled plugin then None else Some (PluginDisabled name)))"
  by (induction plugins) auto

text \<open>
  C7. Plugin discovery, given a plugin name and the registry's list, takes the first
  entry whose name is the given name or the given name followed by \<open>":latest"\<close>. If
  that entry is enabled it returns the socket path made of the runtime directory, the
  entry's identifier and its socket file name; if it is disabled it returns the same
  path together with an error; if no entry matches it returns the plugin-not-found
  error.
\<close>

theorem getV2PluginSocket_resolution:
  "PluginsGet dockerSocket = Inr plugins \<longrightarrow>
   getV2PluginSocket PluginsGet name dockerSocket =
     (case find (\<lambda>plugin. name = plugin_Name plugin \<or> name @ '':latest'' = plugin_Name plugin)
             plugins of
        None \<Rightarrow> ([], Some (PluginNotFound name))
      | Some plugin \<Rightarrow>
          (''/run/docker/plugins/'' @ plugin_ID plugin @ ''/'' @ plugin_Socket plugin,
           if plugin_Enabled plugin then None else Some (PluginDisabled name)))"
  by (simp add: getV2PluginSocket_def rangePlugins_find)

theorem getV2PluginSocket_resolution_witness:
  "getV2PluginSocket (registryOf [exPlugin]) ''nimble'' [] = (''/run/docker/plugins/X/nimble.sock'', None)
   \<and> getV2PluginSocket (registryOf [exPlugin\<lparr>plugin_Name := ''nimble:latest''\<rparr>]) ''nimble'' []
       = (''/run/docker/plugins/X/nimble.sock'', None)
   \<and> getV2PluginSocket (registryOf [exPlugin\<lparr>plugin_Enabled := False\<rparr>]) ''nimble'' []
       = (''/run/docker/plugins/X/nimble.sock'', Some (PluginDisabled ''nimble''))
   \<and> getV2PluginSocket (registryOf [exPlugin]) ''other'' [] = ([], Some (PluginNotFound ''other''))"
  using getV2PluginSocket_resolution[of "registryOf [exPlugin]" "[]" "[exPlugin]" "''nimble''"]
        getV2PluginSocket_resolution
          [of "registryOf [exPlugin\<lparr>plugin_Name := ''nimble:latest''\<rparr>]" "[]"
              "[exPlugin\<lparr>plugin_Name := ''nimble:latest''\<rparr>]" "''nimble''"]
        getV2PluginSocket_resolution
          [of "registryOf [exPlugin\<lparr>plugin_Enabled := False\<rparr>]" "[]"
              "[exPlugin\<lparr>plugin_Enabled := False\<rparr>]" "''nimble''"]
        getV2PluginSocket_resolution[of "registryOf [exPlugin]" "[]" "[exPlugin]" "''other''"]
  by (simp add: exPlugin_def)

text \<open>
  The tag is appended to the requested name only: a request for \<open>"nimble:latest"\<close> does
  not find an entry named \<open>"nimble"\<close>.
\<close>

lemma getV2PluginSocket_tagged_request:
  "getV2PluginSocket (registryOf [exPlugin]) ''nimble:latest'' []
     = ([], Some (PluginNotFound ''nimble:latest''))"
  by (simp add: getV2PluginSocket_def exPlugin_def)

subsection \<open>The uniform error check\<close>

text \<open>
  C3, as stated, fails for \<open>Capabilities\<close>: its response structure has no error field,
  so a reply whose error member is \<open>"boom"\<close> is returned as a success.
\<close>

theorem Capabilities_ignores_error_field_counterexample:
  "Capabilities (replyWith exReply) exClient =
     ([\<lparr>rq_Action = ''POST'', rq_Path = CapabilitiesURI, rq_Payload = EmptyPayload\<rparr>],
      Inr \<lparr>cr_Capabilities = \<lparr>cap_Scope = ''global''\<rparr>\<rparr>)
   \<and> w_Err exReply = ''boom''"
  by (simp add: Capabilities_def driverRun_def decodeCapResponse_def exReply_def)

lemma Mount_mounter:
  "snd (Mount DoJSON Errorf dvp name mountID) = snd (mounter DoJSON Errorf dvp name mountID MountURI)"
  by (simp add: Mount_def split: prod.splits sum.splits)

lemma Unmount_mounter:
  "snd (Unmount DoJSON Errorf dvp name mountID) =
     (case snd (mounter DoJSON Errorf dvp name mountID UnmountURI) of
        Inl err \<Rightarrow> Some err
      | Inr m \<Rightarrow> None)"
  by (simp add: Unmount_def split: prod.splits sum.splits)

text \<open>
  C3, amended. When the transport delivers a reply, each of \<open>Get\<close>, \<open>List\<close>,
  \<open>Create\<close>, \<open>Mount\<close>, \<open>Unmount\<close> and \<open>Delete\<close> looks at the reply's error
  field before it treats the reply as a success: if the field is empty the operation
  succeeds with the payload, and if it is not the operation fails, whatever the payload
  holds. The failure's message is exactly the field's text when the text holds no
  \<open>%\<close>, \<open>fmt.Errorf\<close> returning such a text as it is. \<open>Capabilities\<close>, whose
  response structure has no error field, succeeds with the decoded payload.
\<close>

theorem driverErrorCheck_uniform:
  "(\<forall>r. DoJSON (client dvp) r = Inr w) \<and> name \<noteq> [] \<longrightarrow>
     (w_Err w = [] \<longrightarrow>
        snd (Get DoJSON Errorf dvp name) = Inr (decodeGetResponse w)
        \<and> snd (List DoJSON Errorf dvp) = Inr (decodeGetListResponse w)
        \<and> snd (snd (Create DoJSON Errorf keys dvp name options)) = Inr (vol_Name (w_Volume w))
        \<and> snd (Mount DoJSON Errorf dvp name mountID) = Inr (w_Mountpoint w)
        \<and> snd (Unmount DoJSON Errorf dvp name mountID) = None
        \<and> snd (Delete DoJSON Errorf dvp name) = None)
   \<and> (w_Err w \<noteq> [] \<longrightarrow>
        isl (snd (Get DoJSON Errorf dvp name))
        \<and> isl (snd (List DoJSON Errorf dvp))
        \<and> isl (snd (snd (Create DoJSON Errorf keys dvp name options)))
        \<and> isl (snd (Mount DoJSON Errorf dvp name mountID))
        \<and> snd (Unmount DoJSON Errorf dvp name mountID) \<noteq> None
        \<and> snd (Delete DoJSON Errorf dvp name) \<noteq> None)
   \<and> (w_Err w \<noteq> [] \<and> CHR ''%'' \<notin> set (w_Err w)
        \<and> (\<forall>t. CHR ''%'' \<notin> set t \<longrightarrow> Errorf t = t) \<longrightarrow>
        map_sum Error id (snd (Get DoJSON Errorf dvp name)) = Inl (w_Err w)
        \<and> map_sum Error id (snd (List DoJSON Errorf dvp)) = Inl (w_Err w)
        \<and> map_sum Error id (snd (snd (Create DoJSON Errorf keys dvp name options)))
            = Inl (w_Err w)
        \<and> map_sum Error id (snd (Mount DoJSON Errorf dvp name mountID)) = Inl (w_Err w)
        \<and> map_option Error (snd (Unmount DoJSON Errorf dvp name mountID)) = Some (w_Err w)
        \<and> map_option Error (snd (Delete DoJSON Errorf dvp name)) = Some (w_Err w))
   \<and> snd (Capabilities DoJSON dvp) = Inr (decodeCapResponse w)"
proof (intro impI)
  assume a: "(\<forall>r. DoJSON (client dvp) r = Inr w) \<and> name \<noteq> []"
  then have run: "\<And>r. driverRun DoJSON dvp r = Inr w" and name: "name \<noteq> []"
    by (simp_all add: driverRun_def)
  have get: "snd (Get DoJSON Errorf dvp name) =
       (if w_Err w = [] then Inr (decodeGetResponse w)
        else Inl (DriverError (Errorf (w_Err w))))"
    by (simp add: Get_def run driverErrorCheck_def decodeGetResponse_def Let_def)
  have list: "snd (List DoJSON Errorf dvp) =
       (if w_Err w = [] then Inr (decodeGetListResponse w)
        else Inl (DriverError (Errorf (w_Err w))))"
    by (simp add: List_def run driverErrorCheck_def decodeGetListResponse_def Let_def)
  have create: "snd (snd (Create DoJSON Errorf keys dvp name options)) =
       (if w_Err w = [] then Inr (vol_Name (w_Volume w))
        else Inl (DriverError (Errorf (w_Err w))))"
    using name by (simp add: Create_def run driverErrorCheck_def decodeGetResponse_def Let_def)
  have m: "\<And>path. snd (mounter DoJSON Errorf dvp name mountID path) =
       (if w_Err w = [] then Inr (w_Mountpoint w)
        else Inl (DriverError (Errorf (w_Err w))))"
    using name by (simp add: mounter_def run driverErrorCheck_def decodeMountResponse_def Let_def)
  have mount: "snd (Mount DoJSON Errorf dvp name mountID) =
       (if w_Err w = [] then Inr (w_Mountpoint w)
        else Inl (DriverError (Errorf (w_Err w))))"
    by (simp add: Mount_mounter m)
  have unmount: "snd (Unmount DoJSON Errorf dvp name mountID) =
       (if w_Err w = [] then None else Some (DriverError (Errorf (w_Err w))))"
    by (simp add: Unmount_mounter m)
  have delete: "snd (Delete DoJSON Errorf dvp name) =
       (if w_Err w = [] then None else Some (DriverError (Errorf (w_Err w))))"
    using name by (simp add: Delete_def run driverErrorCheck_def decodeGetResponse_def Let_def)
  have cap: "snd (Capabilities DoJSON dvp) = Inr (decodeCapResponse w)"
    by (simp add: Capabilities_def run Let_def)
  show "(w_Err w = [] \<longrightarrow>
        snd (Get DoJSON Errorf dvp name) = Inr (decodeGetResponse w)
        \<and> snd (List DoJSON Errorf dvp) = Inr (decodeGetListResponse w)
        \<and> snd (snd (Create DoJSON Errorf keys dvp name options)) = Inr (vol_Name (w_Volume w))
        \<and> snd (Mount DoJSON Errorf dvp name mountID) = Inr (w_Mountpoint w)
        \<and> snd (Unmount DoJSON Errorf dvp name mountID) = None
        \<and> snd (Delete DoJSON Errorf dvp name) = None)
   \<and> (w_Err w \<noteq> [] \<longrightarrow>
        isl (snd (Get DoJSON Errorf dvp name))
        \<and> isl (snd (List DoJSON Errorf dvp))
        \<and> isl (snd (snd (Create DoJSON Errorf keys dvp name options)))
        \<and> isl (snd (Mount DoJSON Errorf dvp name mountID))
        \<and> snd (Unmount DoJSON Errorf dvp name mountID) \<noteq> None
        \<and> snd (Delete DoJSON Errorf dvp name) \<noteq> None)
   \<and> (w_Err w \<noteq> [] \<and> CHR ''%'' \<notin> set (w_Err w)
        \<and> (\<forall>t. CHR ''%'' \<notin> set t \<longrightarrow> Errorf t = t) \<longrightarrow>
        map_sum Error id (snd (Get DoJSON Errorf dvp name)) = Inl (w_Err w)
        \<and> map_sum Error id (snd (List DoJSON Errorf dvp)) = Inl (w_Err w)
        \<and> map_sum Error id (snd (snd (Create DoJSON Errorf keys dvp name options)))
            = Inl (w_Err w)
        \<and> map_sum Error id (snd (Mount DoJSON Errorf dvp name mountID)) = Inl (w_Err w)
        \<and> map_option Error (snd (Unmount DoJSON Errorf dvp name mountID)) = Some (w_Err w)
        \<and> map_option Error (snd (Delete DoJSON Errorf dvp name)) = Some (w_Err w))
   \<and> snd (Capabilities DoJSON dvp) = Inr (decodeCapResponse w)"
    unfolding get list create mount unmount delete cap by simp
qed

theorem driverErrorCheck_uniform_witness:
  "map_sum Error id (snd (Get (replyWith exReply) verbatim exClient ''v1'')) = Inl ''boom''
   \<and> map_sum Error id (snd (List (replyWith exReply) verbatim exClient)) = Inl ''boom''
   \<and> map_sum Error id (snd (snd (Create (replyWith exReply) verbatim [] exClient ''v1'' Map.empty)))
        = Inl ''boom''
   \<and> map_sum Error id (snd (Mount (replyWith exReply) verbatim exClient ''v1'' ''m1'')) = Inl ''boom''
   \<and> map_option Error (snd (Unmount (replyWith exReply) verbatim exClient ''v1'' ''m1''))
        = Some ''boom''
   \<and> map_option Error (snd (Delete (replyWith exReply) verbatim exClient ''v1'')) = Some ''boom''
   \<and> snd (Get (replyWith (exReply\<lparr>w_Err := []\<rparr>)) verbatim exClient ''v1'')
        = Inr \<lparr>gr_Volume = w_Volume exReply, gr_Err = []\<rparr>
   \<and> snd (Delete (replyWith (exReply\<lparr>w_Err := []\<rparr>)) verbatim exClient ''v1'') = None"
proof -
  have h1: "(\<forall>r. replyWith exReply (client exClient) r = Inr exReply) \<and> ''v1'' \<noteq> []"
    by simp
  have h2: "(\<forall>r. replyWith (exReply\<lparr>w_Err := []\<rparr>) (client exClient) r
                 = Inr (exReply\<lparr>w_Err := []\<rparr>)) \<and> ''v1'' \<noteq> []"
    by simp
  have h3: "w_Err exReply \<noteq> [] \<and> CHR ''%'' \<notin> set (w_Err exReply)
        \<and> (\<forall>t. CHR ''%'' \<notin> set t \<longrightarrow> verbatim t = t)"
    by (simp add: exReply_def)
  have h4: "w_Err (exReply\<lparr>w_Err := []\<rparr>) = []" by simp
  note failing = driverErrorCheck_uniform
         [of "replyWith exReply" exClient exReply "''v1''" verbatim "[]" Map.empty "''m1''",
          THEN mp, OF h1, THEN conjunct2, THEN conjunct2, THEN conjunct1, THEN mp, OF h3]
  note succeeding = driverErrorCheck_uniform
         [of "replyWith (exReply\<lparr>w_Err := []\<rparr>)" exClient "exReply\<lparr>w_Err := []\<rparr>" "''v1''"
             verbatim "[]" Map.empty "''m1''",
          THEN mp, OF h2, THEN conjunct1, THEN mp, OF h4]
  from failing succeeding show ?thesis
    by (simp add: exReply_def decodeGetResponse_def)
qed

subsection \<open>Construction of the client\<close>

text \<open>
  C9. Construction of the client. A socket locator that does not start with \<open>"/"\<close>
  is resolved through plugin discovery, and when discovery fails construction returns
  no client and discovery's error, without sending a request. Otherwise the locator
  after this step, replaced by the default socket path if it is empty, is the socket of
  the client that is built; construction then sends the one \<open>Capabilities\<close> request
  and returns the built client together with the probe's error when the probe fails,
  and with no error when it succeeds.
\<close>

theorem NewDockerVolumePlugin_construction:
  "(\<forall>socketPath e.
      \<not> prefix ''/'' (opt_SocketPath options)
      \<and> getV2PluginSocket PluginsGet (opt_SocketPath options) [] = (socketPath, Some e)
      \<longrightarrow> NewDockerVolumePlugin PluginsGet DoJSON options =
            (options\<lparr>opt_SocketPath := socketPath\<rparr>, [], None, Some e))
   \<and> (\<forall>located.
        (prefix ''/'' (opt_SocketPath options) \<and> located = opt_SocketPath options
         \<or> \<not> prefix ''/'' (opt_SocketPath options)
           \<and> getV2PluginSocket PluginsGet (opt_SocketPath options) [] = (located, None))
      \<longrightarrow> NewDockerVolumePlugin PluginsGet DoJSON options =
            (options\<lparr>opt_SocketPath := (if located = [] then defaultSocketPath else located)\<rparr>,
             [\<lparr>rq_Action = ''POST'', rq_Path = CapabilitiesURI, rq_Payload = EmptyPayload\<rparr>],
             Some \<lparr>stripK8sOpts = opt_StripK8sFromOptions options,
                   client = (if located = [] then defaultSocketPath else located),
                   dvp_ListOfStorageResourceOptions = opt_ListOfStorageResourceOptions options,
                   dvp_FactorForConversion = opt_FactorForConversion options\<rparr>,
             (case DoJSON (if located = [] then defaultSocketPath else located)
                     \<lparr>rq_Action = ''POST'', rq_Path = CapabilitiesURI, rq_Payload = EmptyPayload\<rparr> of
                Inl e \<Rightarrow> Some e
              | Inr w \<Rightarrow> None)))"
proof (intro conjI allI impI)
  fix socketPath e
  assume "\<not> prefix ''/'' (opt_SocketPath options)
      \<and> getV2PluginSocket PluginsGet (opt_SocketPath options) [] = (socketPath, Some e)"
  then show "NewDockerVolumePlugin PluginsGet DoJSON options =
            (options\<lparr>opt_SocketPath := socketPath\<rparr>, [], None, Some e)"
    by (simp add: NewDockerVolumePlugin_def)
next
  fix located
  assume a: "prefix ''/'' (opt_SocketPath options) \<and> located = opt_SocketPath options
         \<or> \<not> prefix ''/'' (opt_SocketPath options)
           \<and> getV2PluginSocket PluginsGet (opt_SocketPath options) [] = (located, None)"
  then show "NewDockerVolumePlugin PluginsGet DoJSON options =
            (options\<lparr>opt_SocketPath := (if located = [] then defaultSocketPath else located)\<rparr>,
             [\<lparr>rq_Action = ''POST'', rq_Path = CapabilitiesURI, rq_Payload = EmptyPayload\<rparr>],
             Some \<lparr>stripK8sOpts = opt_StripK8sFromOptions options,
                   client = (if located = [] then defaultSocketPath else located),
                   dvp_ListOfStorageResourceOptions = opt_ListOfStorageResourceOptions options,
                   dvp_FactorForConversion = opt_FactorForConversion options\<rparr>,
             (case DoJSON (if located = [] then defaultSocketPath else located)
                     \<lparr>rq_Action = ''POST'', rq_Path = CapabilitiesURI, rq_Payload = EmptyPayload\<rparr> of
                Inl e \<Rightarrow> Some e
              | Inr w \<Rightarrow> None))"
  proof (elim disjE conjE)
    assume "prefix ''/'' (opt_SocketPath options)" "located = opt_SocketPath options"
    then show ?thesis
      by (cases "DoJSON (opt_SocketPath options)
                  \<lparr>rq_Action = ''POST'', rq_Path = CapabilitiesURI, rq_Payload = EmptyPayload\<rparr>")
         (auto simp: NewDockerVolumePlugin_def Capabilities_def driverRun_def Let_def)
  next
    assume "\<not> prefix ''/'' (opt_SocketPath options)"
      "getV2PluginSocket PluginsGet (opt_SocketPath options) [] = (located, None)"
    then show ?thesis
      by (cases "DoJSON (if located = [] then defaultSocketPath else located)
                  \<lparr>rq_Action = ''POST'', rq_Path = CapabilitiesURI, rq_Payload = EmptyPayload\<rparr>")
         (auto simp: NewDockerVolumePlugin_def Capabilities_def driverRun_def Let_def)
  qed
qed

theorem NewDockerVolumePlugin_construction_witness:
  "NewDockerVolumePlugin (registryOf [exPlugin]) (replyWith exReply)
     (exOptions\<lparr>opt_SocketPath := ''other''\<rparr>) =
     (exOptions\<lparr>opt_SocketPath := []\<rparr>, [], None, Some (PluginNotFound ''other''))
   \<and> NewDockerVolumePlugin (registryOf [exPlugin]) (failWith (TransportError ''connection refused''))
       exOptions =
     (exOptions\<lparr>opt_SocketPath := ''/run/docker/plugins/X/nimble.sock''\<rparr>,
      [\<lparr>rq_Action = ''POST'', rq_Path = CapabilitiesURI, rq_Payload = EmptyPayload\<rparr>],
      Some exClient, Some (TransportError ''connection refused''))
   \<and> NewDockerVolumePlugin (registryOf [exPlugin]) (replyWith exReply)
       (exOptions\<lparr>opt_SocketPath := ''/run/nimble.sock''\<rparr>) =
     (exOptions\<lparr>opt_SocketPath := ''/run/nimble.sock''\<rparr>,
      [\<lparr>rq_Action = ''POST'', rq_Path = CapabilitiesURI, rq_Payload = EmptyPayload\<rparr>],
      Some (exClient\<lparr>client := ''/run/nimble.sock''\<rparr>), None)"
proof -
  have h1: "\<not> prefix ''/'' (opt_SocketPath (exOptions\<lparr>opt_SocketPath := ''other''\<rparr>))
      \<and> getV2PluginSocket (registryOf [exPlugin])
            (opt_SocketPath (exOptions\<lparr>opt_SocketPath := ''other''\<rparr>)) []
          = ([], Some (PluginNotFound ''other''))"
    by (simp add: getV2PluginSocket_def exPlugin_def)
  have h2: "prefix ''/'' (opt_SocketPath exOptions)
              \<and> ''/run/docker/plugins/X/nimble.sock'' = opt_SocketPath exOptions
         \<or> \<not> prefix ''/'' (opt_SocketPath exOptions)
           \<and> getV2PluginSocket (registryOf [exPlugin]) (opt_SocketPath exOptions) []
               = (''/run/docker/plugins/X/nimble.sock'', None)"
    by (simp add: getV2PluginSocket_def exPlugin_def exOptions_def)
  have h3: "prefix ''/'' (opt_SocketPath (exOptions\<lparr>opt_SocketPath := ''/run/nimble.sock''\<rparr>))
              \<and> ''/run/nimble.sock'' = opt_SocketPath (exOptions\<lparr>opt_SocketPath := ''/run/nimble.sock''\<rparr>)
         \<or> \<not> prefix ''/'' (opt_SocketPath (exOptions\<lparr>opt_SocketPath := ''/run/nimble.sock''\<rparr>))
           \<and> getV2PluginSocket (registryOf [exPlugin])
                (opt_SocketPath (exOptions\<lparr>opt_SocketPath := ''/run/nimble.sock''\<rparr>)) []
               = (''/run/nimble.sock'', None)"
    by simp
  from NewDockerVolumePlugin_construction
         [of "exOptions\<lparr>opt_SocketPath := ''other''\<rparr>" "registryOf [exPlugin]" "replyWith exReply",
          THEN conjunct1, rule_format, OF h1]
       NewDockerVolumePlugin_construction
         [of exOptions "registryOf [exPlugin]" "failWith (TransportError ''connection refused'')",
          THEN conjunct2, rule_format, OF h2]
       NewDockerVolumePlugin_construction
         [of "exOptions\<lparr>opt_SocketPath := ''/run/nimble.sock''\<rparr>" "registryOf [exPlugin]"
             "replyWith exReply",
          THEN conjunct2, rule_format, OF h3]
  show ?thesis
    by (simp add: exOptions_def exClient_def)
qed

text \<open>
  An empty socket locator does not start with \<open>"/"\<close>, so it is handed to plugin
  discovery as a plugin name; no plugin has that name, and construction fails with the
  not-found error.
\<close>

lemma NewDockerVolumePlugin_empty_locator:
  "NewDockerVolumePlugin (registryOf [exPlugin]) DoJSON (exOptions\<lparr>opt_SocketPath := []\<rparr>) =
     (exOptions\<lparr>opt_SocketPath := []\<rparr>, [], None, Some (PluginNotFound []))"
  by (simp add: NewDockerVolumePlugin_def getV2PluginSocket_def exPlugin_def exOptions_def)

text \<open>
  A path that discovery returns has the runtime directory, an identifier and a file name
  in it, so it is neither empty nor the default path: the branch that installs the
  default socket path is never taken.
\<close>

lemma rangePlugins_found:
  "rangePlugins name plugins = (socketPath, None) \<Longrightarrow>
   \<exists>pid socket. socketPath = ''/run/docker/plugins/'' @ pid @ ''/'' @ socket"
proof (induction plugins)
  case Nil
  then show ?case by simp
next
  case (Cons plugin plugins)
  show ?case
  proof (cases "name = plugin_Name plugin \<or> name @ '':latest'' = plugin_Name plugin")
    case True
    with Cons.prems
    have "socketPath = ''/run/docker/plugins/'' @ plugin_ID plugin @ ''/'' @ plugin_Socket plugin"
      by (simp split: if_splits)
    then show ?thesis by (intro exI)
  next
    case False
    with Cons show ?thesis by simp
  qed
qed

lemma discovered_path_not_default:
  "''/run/docker/plugins/'' @ pid @ ''/'' @ socket \<noteq> defaultSocketPath"
proof
  assume "''/run/docker/plugins/'' @ pid @ ''/'' @ socket = defaultSocketPath"
  then have "''/run/docker/plugins/'' @ (pid @ ''/'' @ socket) = ''/run/docker/plugins/'' @ ''nimble.sock''"
    by (simp add: defaultSocketPath_def)
  then have "pid @ ''/'' @ socket = ''nimble.sock''"
    by (simp only: same_append_eq)
  then have "CHR ''/'' \<in> set ''nimble.sock''"
    by (metis in_set_conv_decomp append_Cons)
  then show False by simp
qed

lemma NewDockerVolumePlugin_discovery_failure:
  "\<not> prefix ''/'' (opt_SocketPath options) \<Longrightarrow>
   getV2PluginSocket PluginsGet (opt_SocketPath options) [] = (socketPath, Some e) \<Longrightarrow>
   NewDockerVolumePlugin PluginsGet DoJSON options =
     (options\<lparr>opt_SocketPath := socketPath\<rparr>, [], None, Some e)"
  by (simp add: NewDockerVolumePlugin_def)

lemma NewDockerVolumePlugin_probe_failure:
  "prefix ''/'' (opt_SocketPath options) \<Longrightarrow> DoJSON (opt_SocketPath options) r = Inl e \<Longrightarrow>
   r = \<lparr>rq_Action = ''POST'', rq_Path = CapabilitiesURI, rq_Payload = EmptyPayload\<rparr> \<Longrightarrow>
   NewDockerVolumePlugin PluginsGet DoJSON options =
     (options, [r],
      Some \<lparr>stripK8sOpts = opt_StripK8sFromOptions options, client = opt_SocketPath options,
            dvp_ListOfStorageResourceOptions = opt_ListOfStorageResourceOptions options,
            dvp_FactorForConversion = opt_FactorForConversion options\<rparr>,
      Some e)"
  by (auto simp: NewDockerVolumePlugin_def Capabilities_def driverRun_def Let_def)

lemma NewDockerVolumePlugin_client_socket:
  assumes "NewDockerVolumePlugin PluginsGet DoJSON options = (options', sent, Some dvp, err)"
  shows "(prefix ''/'' (opt_SocketPath options) \<and> client dvp = opt_SocketPath options)
         \<or> (\<exists>pid socket. client dvp = ''/run/docker/plugins/'' @ pid @ ''/'' @ socket)"
proof (cases "prefix ''/'' (opt_SocketPath options)")
  case True
  then have "opt_SocketPath options \<noteq> []" by auto
  with True assms show ?thesis
    by (auto simp: NewDockerVolumePlugin_def Let_def split: prod.splits sum.splits)
next
  case False
  obtain socketPath e where g: "getV2PluginSocket PluginsGet (opt_SocketPath options) [] = (socketPath, e)"
    by (cases "getV2PluginSocket PluginsGet (opt_SocketPath options) []")
  show ?thesis
  proof (cases e)
    case (Some x)
    with False g assms show ?thesis by (simp add: NewDockerVolumePlugin_def)
  next
    case None
    with g obtain plugins where "rangePlugins (opt_SocketPath options) plugins = (socketPath, None)"
      by (auto simp: getV2PluginSocket_def split: sum.splits)
    then have sp: "\<exists>pid socket. socketPath = ''/run/docker/plugins/'' @ pid @ ''/'' @ socket"
      by (rule rangePlugins_found)
    then have "socketPath \<noteq> []" by auto
    with False g None assms have "client dvp = socketPath"
      by (auto simp: NewDockerVolumePlugin_def Let_def split: prod.splits sum.splits)
    with sp show ?thesis by simp
  qed
qed

lemma NewDockerVolumePlugin_never_defaults:
  assumes "NewDockerVolumePlugin PluginsGet DoJSON options = (options', sent, Some dvp, err)"
    and "client dvp = defaultSocketPath"
  shows "opt_SocketPath options = defaultSocketPath"
  using NewDockerVolumePlugin_client_socket[OF assms(1)] assms(2) discovered_path_not_default
  by metis

end
